theory Spec2Isabelle
  imports Main "HOL-Library.Word"
begin

unbundle bit_operations_syntax

section \<open>Machine types, register addresses and error numbers\<close>

text \<open>
  The driver \<^verbatim>\<open>drivers/media/i2c/ov6211.c\<close> talks to the sensor through two
  \<^verbatim>\<open>regmap\<close> handles with 16-bit register addresses and 8-bit values. C's
  \<^verbatim>\<open>u8\<close>, \<^verbatim>\<open>u16\<close> and \<^verbatim>\<open>u32\<close> are words of that width (arithmetic
  wraps); \<^verbatim>\<open>int\<close> return codes stay small and are modelled as \<open>int\<close>.
\<close>

type_synonym u8 = "8 word"
type_synonym u16 = "16 word"
type_synonym u32 = "32 word"

abbreviation (input) OV6211_SC_MODE_SELECT :: u16 where "OV6211_SC_MODE_SELECT \<equiv> 0x0100"
abbreviation (input) OV6211_SC_SOFTWARE_RESET :: u16 where "OV6211_SC_SOFTWARE_RESET \<equiv> 0x0103"
abbreviation (input) OV6211_SC_CHIP_ID_HIGH :: u16 where "OV6211_SC_CHIP_ID_HIGH \<equiv> 0x300a"
abbreviation (input) OV6211_SC_CHIP_ID_LOW :: u16 where "OV6211_SC_CHIP_ID_LOW \<equiv> 0x300b"
abbreviation (input) OV6211_SC_REG0C :: u16 where "OV6211_SC_REG0C \<equiv> 0x300c"
abbreviation (input) OV6211_AEC_EXPO1 :: u16 where "OV6211_AEC_EXPO1 \<equiv> 0x3500"
abbreviation (input) OV6211_AEC_EXPO2 :: u16 where "OV6211_AEC_EXPO2 \<equiv> 0x3501"
abbreviation (input) OV6211_AEC_EXPO3 :: u16 where "OV6211_AEC_EXPO3 \<equiv> 0x3502"
abbreviation (input) OV6211_AEC_MANUAL :: u16 where "OV6211_AEC_MANUAL \<equiv> 0x3503"
abbreviation (input) OV6211_TVTS_HI :: u16 where "OV6211_TVTS_HI \<equiv> 0x380e"
abbreviation (input) OV6211_TVTS_LO :: u16 where "OV6211_TVTS_LO \<equiv> 0x380f"
abbreviation (input) OV6211_STROBE_SPAN1 :: u16 where "OV6211_STROBE_SPAN1 \<equiv> 0x3b8d"
abbreviation (input) OV6211_STROBE_SPAN2 :: u16 where "OV6211_STROBE_SPAN2 \<equiv> 0x3b8e"
abbreviation (input) OV6211_STROBE_SPAN3 :: u16 where "OV6211_STROBE_SPAN3 \<equiv> 0x3b8f"
abbreviation (input) OV6211_LAST_REG :: u16 where "OV6211_LAST_REG \<equiv> 0x5e08"

abbreviation (input) EIO :: int where "EIO \<equiv> 5"
abbreviation (input) ENXIO :: int where "ENXIO \<equiv> 6"
abbreviation (input) ENOMEM :: int where "ENOMEM \<equiv> 12"
abbreviation (input) EINVAL :: int where "EINVAL \<equiv> 22"

section \<open>Static tables\<close>

datatype ov6211_mode_id = OV6211_MODE_Y8_400_200 | OV6211_MODE_Y8_400_400

datatype ov6211_framerate_ids =
  OV6211_10_FPS | OV6211_15_FPS | OV6211_30_FPS | OV6211_45_FPS | OV6211_60_FPS
  | OV6211_NUM_FRAMERATES

text \<open>\<^verbatim>\<open>ov6211_framerates[]\<close>, indexed by the enumerators above.\<close>

definition ov6211_framerates :: "int list" where
  "ov6211_framerates = [10, 15, 30, 45, 60]"

text \<open>\<^verbatim>\<open>struct reg_value\<close>; the field \<^verbatim>\<open>mask\<close> is called \<open>mask_bits\<close> here.\<close>

record reg_value =
  reg_addr :: u16
  val :: u8
  mask_bits :: u8
  delay_ms :: u32

abbreviation (input) REG :: "u16 \<Rightarrow> u8 \<Rightarrow> u8 \<Rightarrow> u32 \<Rightarrow> reg_value" where
  "REG a v m d \<equiv> \<lparr>reg_addr = a, val = v, mask_bits = m, delay_ms = d\<rparr>"

text \<open>\<^verbatim>\<open>struct ov6211_mode_info\<close>; the field \<^verbatim>\<open>id\<close> is called \<open>mode_id\<close> here.\<close>

record ov6211_mode_info =
  mode_id :: ov6211_mode_id
  width :: u32
  height :: u32
  reg_data :: "reg_value list"
  reg_data_size :: u32
  pixel_clock :: u32

definition ov6211_init_y8_400_400 :: "reg_value list" where
  "ov6211_init_y8_400_400 =
    [
     REG 0x0103 0x01 0 0, REG 0x0100 0x00 0 0, REG 0x3005 0x08 0 0,
     REG 0x3013 0x12 0 0, REG 0x3014 0x04 0 0, REG 0x3016 0x10 0 0,
     REG 0x3017 0x00 0 0, REG 0x3018 0x00 0 0, REG 0x301a 0x00 0 0,
     REG 0x301b 0x00 0 0, REG 0x301c 0x00 0 0, REG 0x3037 0xf0 0 0,
     REG 0x3080 0x01 0 0, REG 0x3081 0x00 0 0, REG 0x3082 0x01 0 0,
     REG 0x3098 0x04 0 0, REG 0x3099 0x28 0 0, REG 0x309a 0x06 0 0,
     REG 0x309b 0x04 0 0, REG 0x309c 0x00 0 0, REG 0x309d 0x00 0 0,
     REG 0x309e 0x01 0 0, REG 0x309f 0x00 0 0, REG 0x30b0 0x08 0 0,
     REG 0x30b1 0x02 0 0, REG 0x30b2 0x00 0 0, REG 0x30b3 0x28 0 0,
     REG 0x30b4 0x02 0 0, REG 0x30b5 0x00 0 0, REG 0x3106 0xd9 0 0,
     REG 0x3500 0x00 0 0, REG 0x3501 0x1b 0 0, REG 0x3502 0x20 0 0,
     REG 0x3503 0x07 0 0, REG 0x3509 0x10 0 0, REG 0x350b 0x10 0 0,
     REG 0x3600 0xfc 0 0, REG 0x3620 0xb7 0 0, REG 0x3621 0x05 0 0,
     REG 0x3626 0x31 0 0, REG 0x3627 0x40 0 0, REG 0x3632 0xa3 0 0,
     REG 0x3633 0x34 0 0, REG 0x3634 0x40 0 0, REG 0x3636 0x00 0 0,
     REG 0x3660 0x80 0 0, REG 0x3662 0x03 0 0, REG 0x3664 0xf0 0 0,
     REG 0x366a 0x10 0 0, REG 0x366b 0x06 0 0, REG 0x3680 0xf4 0 0,
     REG 0x3681 0x50 0 0, REG 0x3682 0x00 0 0, REG 0x3708 0x20 0 0,
     REG 0x3709 0x40 0 0, REG 0x370d 0x03 0 0, REG 0x373b 0x02 0 0,
     REG 0x373c 0x08 0 0, REG 0x3742 0x00 0 0, REG 0x3744 0x16 0 0,
     REG 0x3745 0x08 0 0, REG 0x3781 0xfc 0 0, REG 0x3788 0x00 0 0,
     REG 0x3800 0x00 0 0, REG 0x3801 0x04 0 0, REG 0x3802 0x00 0 0,
     REG 0x3803 0x04 0 0, REG 0x3804 0x01 0 0, REG 0x3805 0x9b 0 0,
     REG 0x3806 0x01 0 0, REG 0x3807 0x9b 0 0, REG 0x3808 0x01 0 0,
     REG 0x3809 0x90 0 0, REG 0x380a 0x01 0 0, REG 0x380b 0x90 0 0,
     REG 0x380c 0x05 0 0, REG 0x380d 0xf2 0 0, REG 0x380e 0x03 0 0,
     REG 0x380f 0x6c 0 0, REG 0x3810 0x00 0 0, REG 0x3811 0x04 0 0,
     REG 0x3812 0x00 0 0, REG 0x3813 0x04 0 0, REG 0x3814 0x11 0 0,
     REG 0x3815 0x11 0 0, REG 0x3820 0x00 0 0, REG 0x3821 0x00 0 0,
     REG 0x382b 0xfa 0 0, REG 0x382f 0x04 0 0, REG 0x3832 0x00 0 0,
     REG 0x3833 0x05 0 0, REG 0x3834 0x00 0 0, REG 0x3835 0x05 0 0,
     REG 0x3882 0x04 0 0, REG 0x3883 0x00 0 0, REG 0x38a4 0x10 0 0,
     REG 0x38a5 0x00 0 0, REG 0x38b1 0x03 0 0, REG 0x3b80 0x00 0 0,
     REG 0x3b81 0xff 0 0, REG 0x3b82 0x10 0 0, REG 0x3b83 0x00 0 0,
     REG 0x3b84 0x08 0 0, REG 0x3b85 0x00 0 0, REG 0x3b86 0x01 0 0,
     REG 0x3b87 0x00 0 0, REG 0x3b88 0x00 0 0, REG 0x3b89 0x00 0 0,
     REG 0x3b8a 0x00 0 0, REG 0x3b8b 0x05 0 0, REG 0x3b8c 0x00 0 0,
     REG 0x3b8d 0x00 0 0, REG 0x3b8e 0x01 0 0, REG 0x3b8f 0xb2 0 0,
     REG 0x3b94 0x05 0 0, REG 0x3b95 0xf2 0 0, REG 0x3b96 0xc0 0 0,
     REG 0x4004 0x04 0 0, REG 0x404e 0x01 0 0, REG 0x4801 0x0f 0 0,
     REG 0x4806 0x0f 0 0, REG 0x4837 0x43 0 0, REG 0x5a08 0x00 0 0,
     REG 0x5a01 0x00 0 0, REG 0x5a03 0x00 0 0, REG 0x5a04 0x10 0 0,
     REG 0x5a05 0xa0 0 0, REG 0x5a06 0x0c 0 0, REG 0x5a07 0x78 0 0
    ]"

definition ov6211_init_y8_400_200 :: "reg_value list" where
  "ov6211_init_y8_400_200 =
    [
     REG 0x0103 0x01 0 0, REG 0x0100 0x00 0 0, REG 0x3005 0x08 0 0,
     REG 0x3013 0x12 0 0, REG 0x3014 0x04 0 0, REG 0x3016 0x10 0 0,
     REG 0x3017 0x00 0 0, REG 0x3018 0x00 0 0, REG 0x301a 0x00 0 0,
     REG 0x301b 0x00 0 0, REG 0x301c 0x00 0 0, REG 0x3037 0xf0 0 0,
     REG 0x3080 0x01 0 0, REG 0x3081 0x00 0 0, REG 0x3082 0x01 0 0,
     REG 0x3098 0x04 0 0, REG 0x3099 0x28 0 0, REG 0x309a 0x06 0 0,
     REG 0x309b 0x04 0 0, REG 0x309c 0x00 0 0, REG 0x309d 0x00 0 0,
     REG 0x309e 0x01 0 0, REG 0x309f 0x00 0 0, REG 0x30b0 0x08 0 0,
     REG 0x30b1 0x02 0 0, REG 0x30b2 0x00 0 0, REG 0x30b3 0x28 0 0,
     REG 0x30b4 0x02 0 0, REG 0x30b5 0x00 0 0, REG 0x3106 0xd9 0 0,
     REG 0x3500 0x00 0 0, REG 0x3501 0x1b 0 0, REG 0x3502 0x20 0 0,
     REG 0x3503 0x07 0 0, REG 0x3509 0x10 0 0, REG 0x350b 0x10 0 0,
     REG 0x3600 0xfc 0 0, REG 0x3620 0xb7 0 0, REG 0x3621 0x05 0 0,
     REG 0x3626 0x31 0 0, REG 0x3627 0x40 0 0, REG 0x3632 0xa3 0 0,
     REG 0x3633 0x34 0 0, REG 0x3634 0x40 0 0, REG 0x3636 0x00 0 0,
     REG 0x3660 0x80 0 0, REG 0x3662 0x03 0 0, REG 0x3664 0xf0 0 0,
     REG 0x366a 0x10 0 0, REG 0x366b 0x06 0 0, REG 0x3680 0xf4 0 0,
     REG 0x3681 0x50 0 0, REG 0x3682 0x00 0 0, REG 0x3708 0x20 0 0,
     REG 0x3709 0x40 0 0, REG 0x370d 0x03 0 0, REG 0x373b 0x02 0 0,
     REG 0x373c 0x08 0 0, REG 0x3742 0x00 0 0, REG 0x3744 0x16 0 0,
     REG 0x3745 0x08 0 0, REG 0x3781 0xfc 0 0, REG 0x3788 0x00 0 0,
     REG 0x3800 0x00 0 0, REG 0x3801 0x04 0 0, REG 0x3802 0x00 0 0,
     REG 0x3803 0x04 0 0, REG 0x3804 0x01 0 0, REG 0x3805 0x9b 0 0,
     REG 0x3806 0x01 0 0, REG 0x3807 0x9b 0 0, REG 0x3808 0x01 0 0,
     REG 0x3809 0x90 0 0, REG 0x380a 0x00 0 0, REG 0x380b 0xc8 0 0,
     REG 0x380c 0x05 0 0, REG 0x380d 0xf2 0 0, REG 0x380e 0x0d 0 0,
     REG 0x380f 0xb0 0 0, REG 0x3810 0x00 0 0, REG 0x3811 0x04 0 0,
     REG 0x3812 0x00 0 0, REG 0x3813 0x9a 0 0, REG 0x3814 0x11 0 0,
     REG 0x3815 0x11 0 0, REG 0x3820 0x00 0 0, REG 0x3821 0x00 0 0,
     REG 0x382b 0xfa 0 0, REG 0x382f 0x04 0 0, REG 0x3832 0x00 0 0,
     REG 0x3833 0x05 0 0, REG 0x3834 0x00 0 0, REG 0x3835 0x05 0 0,
     REG 0x3882 0x04 0 0, REG 0x3883 0x00 0 0, REG 0x38a4 0x10 0 0,
     REG 0x38a5 0x00 0 0, REG 0x38b1 0x03 0 0, REG 0x3b80 0x00 0 0,
     REG 0x3b81 0xff 0 0, REG 0x3b82 0x10 0 0, REG 0x3b83 0x00 0 0,
     REG 0x3b84 0x08 0 0, REG 0x3b85 0x00 0 0, REG 0x3b86 0x01 0 0,
     REG 0x3b87 0x00 0 0, REG 0x3b88 0x00 0 0, REG 0x3b89 0x00 0 0,
     REG 0x3b8a 0x00 0 0, REG 0x3b8b 0x05 0 0, REG 0x3b8c 0x00 0 0,
     REG 0x3b8d 0x00 0 0, REG 0x3b8e 0x01 0 0, REG 0x3b8f 0xb2 0 0,
     REG 0x3b94 0x05 0 0, REG 0x3b95 0xf2 0 0, REG 0x3b96 0xc0 0 0,
     REG 0x4004 0x04 0 0, REG 0x404e 0x01 0 0, REG 0x4801 0x0f 0 0,
     REG 0x4806 0x0f 0 0, REG 0x4837 0x43 0 0, REG 0x5a08 0x00 0 0,
     REG 0x5a01 0x00 0 0, REG 0x5a03 0x00 0 0, REG 0x5a04 0x10 0 0,
     REG 0x5a05 0xa0 0 0, REG 0x5a06 0x0c 0 0, REG 0x5a07 0x78 0 0
    ]"

text \<open>
  \<^verbatim>\<open>ov6211_mode_data[]\<close>: \<^verbatim>\<open>ARRAY_SIZE\<close> of either script is 129, and the pixel
  clock is \<^verbatim>\<open>400 * 400 * 60 * 2\<close>.
\<close>

definition ov6211_mode_data :: "ov6211_mode_info list" where
  "ov6211_mode_data =
    [\<lparr>mode_id = OV6211_MODE_Y8_400_200, width = 400, height = 200,
      reg_data = ov6211_init_y8_400_200, reg_data_size = 129, pixel_clock = 19200000\<rparr>,
     \<lparr>mode_id = OV6211_MODE_Y8_400_400, width = 400, height = 400,
      reg_data = ov6211_init_y8_400_400, reg_data_size = 129, pixel_clock = 19200000\<rparr>]"

section \<open>The register transport\<close>

text \<open>
  \<^verbatim>\<open>regmap_read\<close>, \<^verbatim>\<open>regmap_write\<close> and \<^verbatim>\<open>usleep_range\<close> are kernel
  services. The device behind them is a register file; the environment decides, call by
  call, whether a transfer is acknowledged. \<open>replies\<close> lists what the coming regmap calls
  meet: the return code of the transfer (\<open>0\<close>: acknowledged) and the indeterminate
  content of the caller's \<^verbatim>\<open>unsigned int\<close> that an unsuccessful read leaves
  unwritten. Once the list is used up every transfer is acknowledged. \<open>xfers\<close> records,
  oldest first, each transfer put on the bus and each sleep.

  Both handles are created from \<^verbatim>\<open>ov6211_regmap_config\<close>, whose
  \<^verbatim>\<open>max_register = OV6211_LAST_REG\<close> makes the regmap core refuse a higher address
  with \<^verbatim>\<open>-EIO\<close> before anything is put on the bus; such a call still takes its
  entry of \<open>replies\<close>, of which only the indeterminate content is used. A transfer that
  is not acknowledged leaves the register file as it was. The write handle and the read
  handle address the same register file.
\<close>

datatype bus_event = Rd u16 | Wr u16 u8 | Usleep u32 u32

record bus =
  regs :: "u16 \<Rightarrow> u8"
  replies :: "(int \<times> u32) list"
  xfers :: "bus_event list"

definition next_reply :: "bus \<Rightarrow> (int \<times> u32) \<times> bus" where
  "next_reply b =
     (case replies b of [] \<Rightarrow> ((0, 0), b) | r # rs \<Rightarrow> (r, b\<lparr>replies := rs\<rparr>))"

definition emit :: "bus_event \<Rightarrow> bus \<Rightarrow> bus" where
  "emit e b = b\<lparr>xfers := xfers b @ [e]\<rparr>"

definition regmap_write :: "u16 \<Rightarrow> u8 \<Rightarrow> bus \<Rightarrow> int \<times> bus" where
  "regmap_write reg v b =
     (case next_reply b of
        ((rc, junk), b1) \<Rightarrow>
          if OV6211_LAST_REG < reg then (- EIO, b1)
          else if rc = 0 then (0, emit (Wr reg v) (b1\<lparr>regs := (regs b1)(reg := v)\<rparr>))
          else (rc, emit (Wr reg v) b1))"

definition regmap_read :: "u16 \<Rightarrow> bus \<Rightarrow> (int \<times> u32) \<times> bus" where
  "regmap_read reg b =
     (case next_reply b of
        ((rc, junk), b1) \<Rightarrow>
          if OV6211_LAST_REG < reg then ((- EIO, junk), b1)
          else if rc = 0 then ((0, ucast (regs b1 reg)), emit (Rd reg) b1)
          else ((rc, junk), emit (Rd reg) b1))"

definition usleep_range :: "u32 \<Rightarrow> u32 \<Rightarrow> bus \<Rightarrow> bus" where
  "usleep_range lo hi b = emit (Usleep lo hi) b"

section \<open>Register access helpers and the script applier\<close>

text \<open>\<^verbatim>\<open>ov6211_write_reg\<close>: the return code of \<^verbatim>\<open>regmap_write\<close>, logged when negative.\<close>

definition ov6211_write_reg :: "u16 \<Rightarrow> u8 \<Rightarrow> bus \<Rightarrow> int \<times> bus" where
  "ov6211_write_reg reg v b = regmap_write reg v b"

text \<open>
  \<^verbatim>\<open>ov6211_read_reg\<close>: \<^verbatim>\<open>*val = r & 0xff\<close> is stored whether or not the read
  succeeded.
\<close>

definition ov6211_read_reg :: "u16 \<Rightarrow> bus \<Rightarrow> (int \<times> u8) \<times> bus" where
  "ov6211_read_reg reg b =
     (case regmap_read reg b of ((ret, r), b1) \<Rightarrow> ((ret, ucast (r AND 0xff)), b1))"

definition ov6211_mod_reg :: "u16 \<Rightarrow> u8 \<Rightarrow> u8 \<Rightarrow> bus \<Rightarrow> int \<times> bus" where
  "ov6211_mod_reg reg m v b =
     (case ov6211_read_reg reg b of
        ((ret, readval), b1) \<Rightarrow>
          if ret \<noteq> 0 then (ret, b1)
          else ov6211_write_reg reg ((v AND m) OR (readval AND NOT m)) b1)"

text \<open>
  The access made by one turn of the loop of \<^verbatim>\<open>ov6211_load_regs\<close>: a
  read-modify-write when the mask is non-zero, a plain write otherwise.
\<close>

definition load_regs_access :: "reg_value \<Rightarrow> bus \<Rightarrow> int \<times> bus" where
  "load_regs_access r b =
     (if mask_bits r \<noteq> 0 then ov6211_mod_reg (reg_addr r) (mask_bits r) (val r) b
      else ov6211_write_reg (reg_addr r) (val r) b)"

text \<open>
  The loop of \<^verbatim>\<open>ov6211_load_regs\<close> over the remaining entries: \<^verbatim>\<open>break\<close> on
  the first non-zero return code, otherwise sleep when \<^verbatim>\<open>delay_ms\<close> is set and go on.
\<close>

fun load_regs_loop :: "reg_value list \<Rightarrow> bus \<Rightarrow> int \<times> bus" where
  "load_regs_loop [] b = (0, b)"
| "load_regs_loop (r # rs) b =
     (case load_regs_access r b of
        (ret, b1) \<Rightarrow>
          if ret \<noteq> 0 then (ret, b1)
          else load_regs_loop rs
                 (if delay_ms r \<noteq> 0
                  then usleep_range (1000 * delay_ms r) (1000 * delay_ms r + 100) b1
                  else b1))"

text \<open>
  \<^verbatim>\<open>ov6211_load_regs\<close> walks the first \<^verbatim>\<open>reg_data_size\<close> entries of the mode's
  script.
\<close>

definition ov6211_load_regs :: "ov6211_mode_info \<Rightarrow> bus \<Rightarrow> int \<times> bus" where
  "ov6211_load_regs mode b =
     load_regs_loop (take (unat (reg_data_size mode)) (reg_data mode)) b"

section \<open>Device state\<close>

record v4l2_fract =
  numerator :: u32
  denominator :: u32

text \<open>
  The fields of \<^verbatim>\<open>struct ov6211_dev\<close> that the control path reads and writes.
  \<open>cur_mode\<close> points into \<open>ov6211_mode_data\<close>; \<open>ctrl_exposure_val\<close> stands for
  \<^verbatim>\<open>ctrls.exposure->val\<close>, the value of the exposure control.
\<close>

record ov6211_dev =
  cur_mode :: ov6211_mode_info
  cur_fr_id :: ov6211_framerate_ids
  frame_interval :: v4l2_fract
  ctrl_exposure_val :: u32
  exposure :: u32
  pending_mode_change :: bool
  pending_fi_change :: bool
  streaming :: bool

section \<open>Reset, exposure and streaming\<close>

text \<open>\<^verbatim>\<open>ov6211_soft_reset\<close>: both return codes are dropped.\<close>

definition ov6211_soft_reset :: "bus \<Rightarrow> bus" where
  "ov6211_soft_reset b =
     (let b1 = snd (ov6211_write_reg OV6211_SC_SOFTWARE_RESET 0x01 b);
          b2 = usleep_range 5000 9000 b1
      in snd (ov6211_write_reg OV6211_SC_SOFTWARE_RESET 0x00 b2))"

text \<open>
  \<^verbatim>\<open>ov6211_set_exposure\<close>: \<^verbatim>\<open>ce\<close> is a \<^verbatim>\<open>u32\<close>, so \<^verbatim>\<open>ce -= 4\<close> wraps;
  no return code of the ten accesses is looked at, and the function returns 0.
\<close>

definition ov6211_set_exposure :: "u32 \<Rightarrow> bus \<Rightarrow> int \<times> bus" where
  "ov6211_set_exposure expo b =
     (let r1 = ov6211_read_reg OV6211_TVTS_HI b;
          ce1 = push_bit 8 (ucast (snd (fst r1)));
          r2 = ov6211_read_reg OV6211_TVTS_LO (snd r1);
          ce2 = ce1 OR ucast (snd (fst r2));
          ce = ce2 - 4;
          e = (if ce < expo then ce else expo);
          b3 = snd (ov6211_mod_reg OV6211_AEC_MANUAL 1 1 (snd r2));
          b4 = snd (ov6211_write_reg OV6211_AEC_EXPO1 (ucast (drop_bit 12 e AND 0x0f)) b3);
          b5 = snd (ov6211_write_reg OV6211_AEC_EXPO2 (ucast (drop_bit 4 e AND 0xff)) b4);
          b6 = snd (ov6211_write_reg OV6211_AEC_EXPO3 (ucast (push_bit 4 e AND 0xf0)) b5);
          b7 = snd (ov6211_write_reg OV6211_STROBE_SPAN1 (ucast (drop_bit 16 e AND 0xff)) b6);
          b8 = snd (ov6211_write_reg OV6211_STROBE_SPAN2 (ucast (drop_bit 8 e AND 0xff)) b7);
          b9 = snd (ov6211_write_reg OV6211_STROBE_SPAN3 (ucast (e AND 0xff)) b8)
      in (0, b9))"

text \<open>
  The \<^verbatim>\<open>switch (sensor->cur_fr_id)\<close> of \<^verbatim>\<open>internal_set_stream\<close>: the pair
  \<^verbatim>\<open>(hi, lo)\<close> for the five frame rates, \<open>None\<close> where the code returns
  \<^verbatim>\<open>-EINVAL\<close>.
\<close>

fun fr_id_timing :: "ov6211_framerate_ids \<Rightarrow> (u8 \<times> u8) option" where
  "fr_id_timing OV6211_10_FPS = Some (0x14, 0x88)"
| "fr_id_timing OV6211_15_FPS = Some (0x0d, 0xb0)"
| "fr_id_timing OV6211_30_FPS = Some (0x06, 0xd8)"
| "fr_id_timing OV6211_45_FPS = Some (0x04, 0x90)"
| "fr_id_timing OV6211_60_FPS = Some (0x03, 0x6c)"
| "fr_id_timing OV6211_NUM_FRAMERATES = None"

text \<open>\<^verbatim>\<open>internal_set_stream\<close> from its label \<^verbatim>\<open>stream:\<close> on.\<close>

definition internal_set_stream_tail :: "ov6211_dev \<Rightarrow> bool \<Rightarrow> bus \<Rightarrow> int \<times> ov6211_dev \<times> bus" where
  "internal_set_stream_tail sensor on b =
     (let b1 = snd (ov6211_write_reg OV6211_SC_MODE_SELECT 0 b) in
      if on then
        let b2 = usleep_range 4000 5000 b1;
            b3 = (if exposure sensor \<noteq> 0
                  then snd (ov6211_set_exposure (exposure sensor) b2) else b2);
            b4 = snd (ov6211_write_reg OV6211_SC_MODE_SELECT 1 b3)
        in (0, sensor\<lparr>streaming := True\<rparr>, b4)
      else (0, sensor\<lparr>streaming := False\<rparr>, b1))"

definition internal_set_stream :: "ov6211_dev \<Rightarrow> bool \<Rightarrow> bus \<Rightarrow> int \<times> ov6211_dev \<times> bus" where
  "internal_set_stream sensor on b =
     (if \<not> pending_fi_change sensor then internal_set_stream_tail sensor on b
      else
        (case fr_id_timing (cur_fr_id sensor) of
           None \<Rightarrow> (- EINVAL, sensor, b)
         | Some (hi, lo) \<Rightarrow>
             let sensor1 = sensor\<lparr>pending_fi_change := False\<rparr>;
                 b1 = snd (ov6211_write_reg OV6211_TVTS_HI hi b);
                 b2 = snd (ov6211_write_reg OV6211_TVTS_LO lo b1)
             in internal_set_stream_tail sensor1 on b2))"

text \<open>\<^verbatim>\<open>ov6211_set_mode\<close>: the result of \<^verbatim>\<open>ov6211_load_regs\<close> is dropped.\<close>

definition ov6211_set_mode :: "ov6211_dev \<Rightarrow> bus \<Rightarrow> int \<times> bus" where
  "ov6211_set_mode sensor b =
     (let b1 = ov6211_soft_reset b;
          b2 = snd (ov6211_load_regs (cur_mode sensor) b1)
      in (0, b2))"

text \<open>
  \<^verbatim>\<open>ov6211_s_stream\<close>: \<^verbatim>\<open>ret\<close> is that of \<^verbatim>\<open>ov6211_set_mode\<close> (0 when
  \<^verbatim>\<open>enable\<close> is 0); the result of \<^verbatim>\<open>internal_set_stream\<close> is dropped.
\<close>

definition ov6211_s_stream :: "ov6211_dev \<Rightarrow> int \<Rightarrow> bus \<Rightarrow> int \<times> ov6211_dev \<times> bus" where
  "ov6211_s_stream sensor enable b =
     (case (if enable \<noteq> 0 then ov6211_set_mode sensor b else (0, b)) of
        (ret, b1) \<Rightarrow>
          (case internal_set_stream sensor (enable \<noteq> 0) b1 of
             (r, sensor1, b2) \<Rightarrow> (ret, sensor1, b2)))"

section \<open>Controls and frame interval\<close>

abbreviation (input) V4L2_EXPOSURE_AUTO :: int where "V4L2_EXPOSURE_AUTO \<equiv> 0"
abbreviation (input) V4L2_EXPOSURE_MANUAL :: int where "V4L2_EXPOSURE_MANUAL \<equiv> 1"

definition ov6211_set_ctrl_exposure :: "ov6211_dev \<Rightarrow> int \<Rightarrow> bus \<Rightarrow> int \<times> ov6211_dev \<times> bus" where
  "ov6211_set_ctrl_exposure sensor auto_exposure b =
     (if auto_exposure = V4L2_EXPOSURE_AUTO then (0, sensor\<lparr>exposure := 0\<rparr>, b)
      else
        let sensor1 = sensor\<lparr>exposure := ctrl_exposure_val sensor\<rparr>;
            b1 = snd (ov6211_set_exposure (exposure sensor1) b)
        in (0, sensor1, b1))"

text \<open>
  The search loop of \<^verbatim>\<open>internal_set_frame_interval\<close>: the index of the first table
  entry equal to \<^verbatim>\<open>fr_rate\<close> (the \<^verbatim>\<open>int\<close> entry is converted to unsigned for the
  comparison), the length of the table when there is none.
\<close>

fun framerate_index :: "int list \<Rightarrow> u32 \<Rightarrow> nat" where
  "framerate_index [] fr_rate = 0"
| "framerate_index (x # xs) fr_rate =
     (if word_of_int x = fr_rate then 0 else Suc (framerate_index xs fr_rate))"

text \<open>The enumerator of \<^verbatim>\<open>enum ov6211_framerate_ids\<close> with a given value.\<close>

fun framerate_id_of :: "nat \<Rightarrow> ov6211_framerate_ids" where
  "framerate_id_of i =
     (if i = 0 then OV6211_10_FPS else if i = 1 then OV6211_15_FPS
      else if i = 2 then OV6211_30_FPS else if i = 3 then OV6211_45_FPS
      else if i = 4 then OV6211_60_FPS else OV6211_NUM_FRAMERATES)"

definition internal_set_frame_interval :: "ov6211_dev \<Rightarrow> v4l2_fract \<Rightarrow> int \<times> ov6211_dev" where
  "internal_set_frame_interval sensor fi =
     (if numerator fi = 0 then (- EINVAL, sensor)
      else
        let fr_rate = denominator fi div numerator fi;
            i = framerate_index ov6211_framerates fr_rate
        in if i = length ov6211_framerates then (- EINVAL, sensor)
           else (0, sensor\<lparr>cur_fr_id := framerate_id_of i, frame_interval := fi\<rparr>))"

text \<open>
  \<^verbatim>\<open>ov6211_s_frame_interval\<close>: the pending flag is set after the call, whatever it
  returned.
\<close>

definition ov6211_s_frame_interval :: "ov6211_dev \<Rightarrow> v4l2_fract \<Rightarrow> int \<times> ov6211_dev" where
  "ov6211_s_frame_interval sensor fi =
     (case internal_set_frame_interval sensor fi of
        (ret, sensor1) \<Rightarrow> (ret, sensor1\<lparr>pending_fi_change := True\<rparr>))"

section \<open>Chip identity and probe\<close>

definition ov6211_check_chip_id :: "bus \<Rightarrow> int \<times> bus" where
  "ov6211_check_chip_id b =
     (case regmap_read OV6211_SC_CHIP_ID_HIGH b of
        ((ret1, cid1), b1) \<Rightarrow>
          if ret1 \<noteq> 0 \<or> cid1 \<noteq> 0x67 then (ENXIO, b1)
          else
            (case regmap_read OV6211_SC_CHIP_ID_LOW b1 of
               ((ret2, cid2), b2) \<Rightarrow>
                 if ret2 \<noteq> 0 \<or> cid2 \<noteq> 0x10 then (- ENXIO, b2)
                 else
                   (case regmap_read OV6211_SC_REG0C b2 of
                      ((ret3, cid3), b3) \<Rightarrow> if ret3 \<noteq> 0 then (ret3, b3) else (0, b3))))"

text \<open>
  What \<^verbatim>\<open>ov6211_probe\<close> gets from the kernel services it calls, in call order: whether
  the allocation succeeded and an endpoint was found, and the error code (0: none) of
  each other service. \<open>ctrl_handler_error\<close> is \<^verbatim>\<open>hdl->error\<close>, which
  \<^verbatim>\<open>ov6211_init_controls\<close> returns.
\<close>

record probe_env =
  kzalloc_ok :: bool
  endpoint_found :: bool
  endpoint_parse_ret :: int
  pwdn_gpio_err :: int
  reset_gpio_err :: int
  regmap_err :: int
  i2c_client_read_err :: int
  regmap_read_err :: int
  pads_init_ret :: int
  regulators_ret :: int
  ctrl_handler_error :: int
  async_register_ret :: int

text \<open>The device state \<^verbatim>\<open>ov6211_probe\<close> sets up in the zeroed allocation.\<close>

definition ov6211_probe_state :: ov6211_dev where
  "ov6211_probe_state =
     \<lparr>cur_mode = ov6211_mode_data ! 0,
      cur_fr_id = OV6211_45_FPS,
      frame_interval = \<lparr>numerator = 1, denominator = 45\<rparr>,
      ctrl_exposure_val = 0,
      exposure = 0,
      pending_mode_change = False,
      pending_fi_change = False,
      streaming = False\<rparr>"

text \<open>
  \<^verbatim>\<open>ov6211_probe\<close>: the return code, the device state when the probe succeeded, and
  the bus. The result of \<^verbatim>\<open>ov6211_load_regs\<close> is dropped.
\<close>

definition ov6211_probe :: "probe_env \<Rightarrow> bus \<Rightarrow> int \<times> ov6211_dev option \<times> bus" where
  "ov6211_probe env b =
     (if \<not> kzalloc_ok env then (- ENOMEM, None, b)
      else if \<not> endpoint_found env then (- EINVAL, None, b)
      else if endpoint_parse_ret env \<noteq> 0 then (endpoint_parse_ret env, None, b)
      else if pwdn_gpio_err env \<noteq> 0 then (pwdn_gpio_err env, None, b)
      else if reset_gpio_err env \<noteq> 0 then (reset_gpio_err env, None, b)
      else if regmap_err env \<noteq> 0 then (regmap_err env, None, b)
      else if i2c_client_read_err env \<noteq> 0 then (i2c_client_read_err env, None, b)
      else if regmap_read_err env \<noteq> 0 then (regmap_read_err env, None, b)
      else if pads_init_ret env \<noteq> 0 then (pads_init_ret env, None, b)
      else if regulators_ret env \<noteq> 0 then (regulators_ret env, None, b)
      else
        (case ov6211_check_chip_id b of
           (ret, b1) \<Rightarrow>
             if ret \<noteq> 0 then (ret, None, b1)
             else if ctrl_handler_error env \<noteq> 0 then (ctrl_handler_error env, None, b1)
             else
               let b2 = snd (ov6211_load_regs (cur_mode ov6211_probe_state) b1) in
               if async_register_ret env \<noteq> 0 then (async_register_ret env, None, b2)
               else (0, Some ov6211_probe_state, b2)))"

section \<open>Observations on the bus\<close>

text \<open>What was put on the bus between two states of the same bus.\<close>

definition issued :: "bus \<Rightarrow> bus \<Rightarrow> bus_event list" where
  "issued b b' = drop (length (xfers b)) (xfers b')"

text \<open>The addresses of the writes of a log, in order.\<close>

fun write_addrs :: "bus_event list \<Rightarrow> u16 list" where
  "write_addrs [] = []"
| "write_addrs (Wr a v # es) = a # write_addrs es"
| "write_addrs (Rd a # es) = write_addrs es"
| "write_addrs (Usleep lo hi # es) = write_addrs es"

text \<open>A write to one of the two total-vertical-timing registers.\<close>

fun is_tvts_write :: "bus_event \<Rightarrow> bool" where
  "is_tvts_write (Wr a v) = (a = OV6211_TVTS_HI \<or> a = OV6211_TVTS_LO)"
| "is_tvts_write (Rd a) = False"
| "is_tvts_write (Usleep lo hi) = False"

text \<open>
  The values the device holds, read off its register file: the total vertical timing
  (16 bits, high byte first), the exposure in lines (the low nibble of the first
  register, the second register, the high nibble of the third; the low nibble of the
  third register holds sixteenths of a line) and the strobe span (24 bits, high byte
  first).
\<close>

definition tvts_lines :: "(u16 \<Rightarrow> u8) \<Rightarrow> nat" where
  "tvts_lines rf = 256 * unat (rf OV6211_TVTS_HI) + unat (rf OV6211_TVTS_LO)"

definition aec_exposure :: "(u16 \<Rightarrow> u8) \<Rightarrow> nat" where
  "aec_exposure rf =
     4096 * (unat (rf OV6211_AEC_EXPO1) mod 16) + 16 * unat (rf OV6211_AEC_EXPO2)
       + unat (rf OV6211_AEC_EXPO3) div 16"

definition strobe_span :: "(u16 \<Rightarrow> u8) \<Rightarrow> nat" where
  "strobe_span rf =
     65536 * unat (rf OV6211_STROBE_SPAN1) + 256 * unat (rf OV6211_STROBE_SPAN2)
       + unat (rf OV6211_STROBE_SPAN3)"

text \<open>A bus on which nothing has happened yet and every transfer will be acknowledged.\<close>

definition quiet_bus :: "(u16 \<Rightarrow> u8) \<Rightarrow> bus" where
  "quiet_bus rf = \<lparr>regs = rf, replies = [], xfers = []\<rparr>"

section \<open>The transport and the access helpers\<close>

lemma issued_append: "xfers b' = xfers b @ es \<Longrightarrow> issued b b' = es"
  by (simp add: issued_def)

lemma write_addrs_append: "write_addrs (xs @ ys) = write_addrs xs @ write_addrs ys"
  by (induction xs rule: write_addrs.induct) simp_all

lemma ucast_byte_roundtrip: "(ucast ((ucast (x :: u8) :: u32) AND 0xff) :: u8) = x"
proof -
  have m: "(0xff :: u32) = mask 8"
    by (simp add: mask_eq_exp_minus_1)
  show ?thesis
    unfolding m by (rule bit_word_eqI) (simp add: bit_simps)
qed

lemma write_reg_xfers:
  "xfers (snd (ov6211_write_reg reg v b)) =
     xfers b @ (if OV6211_LAST_REG < reg then [] else [Wr reg v])"
  by (simp add: ov6211_write_reg_def regmap_write_def next_reply_def emit_def
      split: list.split prod.split)

lemma read_reg_xfers:
  "xfers (snd (ov6211_read_reg reg b)) =
     xfers b @ (if OV6211_LAST_REG < reg then [] else [Rd reg])"
  by (simp add: ov6211_read_reg_def regmap_read_def next_reply_def emit_def
      split: list.split prod.split)

lemma read_reg_regs: "regs (snd (ov6211_read_reg reg b)) = regs b"
  by (simp add: ov6211_read_reg_def regmap_read_def next_reply_def emit_def
      split: list.split prod.split)

lemma write_reg_failed_regs:
  "fst (ov6211_write_reg reg v b) \<noteq> 0 \<Longrightarrow> regs (snd (ov6211_write_reg reg v b)) = regs b"
  by (simp add: ov6211_write_reg_def regmap_write_def next_reply_def emit_def
      split: list.splits prod.splits if_splits)

lemma read_reg_quiet:
  "replies b = [] \<Longrightarrow> reg \<le> OV6211_LAST_REG \<Longrightarrow>
   ov6211_read_reg reg b = ((0, regs b reg), b\<lparr>xfers := xfers b @ [Rd reg]\<rparr>)"
  by (simp add: ov6211_read_reg_def regmap_read_def next_reply_def emit_def
      ucast_byte_roundtrip linorder_not_less)

lemma write_reg_quiet:
  "replies b = [] \<Longrightarrow> reg \<le> OV6211_LAST_REG \<Longrightarrow>
   ov6211_write_reg reg v b =
     (0, b\<lparr>regs := (regs b)(reg := v), xfers := xfers b @ [Wr reg v]\<rparr>)"
  by (simp add: ov6211_write_reg_def regmap_write_def next_reply_def emit_def
      linorder_not_less)

lemma mod_reg_quiet:
  "replies b = [] \<Longrightarrow> reg \<le> OV6211_LAST_REG \<Longrightarrow>
   ov6211_mod_reg reg m v b =
     (0, b\<lparr>regs := (regs b)(reg := (v AND m) OR (regs b reg AND NOT m)),
           xfers := xfers b @ [Rd reg, Wr reg ((v AND m) OR (regs b reg AND NOT m))]\<rparr>)"
  by (simp add: ov6211_mod_reg_def read_reg_quiet write_reg_quiet)

lemma mod_reg_xfers:
  "\<exists>es. xfers (snd (ov6211_mod_reg reg m v b)) = xfers b @ es
     \<and> (write_addrs es = [reg] \<or> fst (ov6211_mod_reg reg m v b) \<noteq> 0 \<and> write_addrs es = [])"
proof (cases "OV6211_LAST_REG < reg")
  case True
  then show ?thesis
    by (simp add: ov6211_mod_reg_def ov6211_read_reg_def regmap_read_def next_reply_def
        split: list.split prod.split)
next
  case False
  obtain ret rv b1 where rd: "ov6211_read_reg reg b = ((ret, rv), b1)"
    by (metis surj_pair)
  have x1: "xfers b1 = xfers b @ [Rd reg]"
    using read_reg_xfers [of reg b] rd False by simp
  show ?thesis
  proof (cases "ret = 0")
    case True
    then show ?thesis
      using rd x1 False write_reg_xfers [of reg "(v AND m) OR (rv AND NOT m)" b1]
      by (simp add: ov6211_mod_reg_def)
  next
    case False
    then show ?thesis
      using rd x1 by (simp add: ov6211_mod_reg_def)
  qed
qed

lemma mod_reg_failed_regs:
  "fst (ov6211_mod_reg reg m v b) \<noteq> 0 \<Longrightarrow> regs (snd (ov6211_mod_reg reg m v b)) = regs b"
proof -
  assume f: "fst (ov6211_mod_reg reg m v b) \<noteq> 0"
  obtain ret rv b1 where rd: "ov6211_read_reg reg b = ((ret, rv), b1)"
    by (metis surj_pair)
  have r1: "regs b1 = regs b"
    using read_reg_regs [of reg b] rd by simp
  show ?thesis
  proof (cases "ret = 0")
    case True
    then show ?thesis
      using f rd r1 write_reg_failed_regs [of reg "(v AND m) OR (rv AND NOT m)" b1]
      by (simp add: ov6211_mod_reg_def)
  next
    case False
    then show ?thesis
      using rd r1 by (simp add: ov6211_mod_reg_def)
  qed
qed

section \<open>The script applier\<close>

lemma load_regs_access_xfers:
  "\<exists>es. xfers (snd (load_regs_access r b)) = xfers b @ es
     \<and> (write_addrs es = [reg_addr r]
        \<or> fst (load_regs_access r b) \<noteq> 0 \<and> write_addrs es = [])"
proof (cases "mask_bits r = 0")
  case True
  show ?thesis
  proof (cases "OV6211_LAST_REG < reg_addr r")
    case True
    then show ?thesis
      using \<open>mask_bits r = 0\<close>
      by (simp add: load_regs_access_def ov6211_write_reg_def regmap_write_def next_reply_def
          split: list.split prod.split)
  next
    case False
    then show ?thesis
      using \<open>mask_bits r = 0\<close> write_reg_xfers [of "reg_addr r" "val r" b]
      by (simp add: load_regs_access_def)
  qed
next
  case False
  then show ?thesis
    using mod_reg_xfers [of "reg_addr r" "mask_bits r" "val r" b]
    by (simp add: load_regs_access_def)
qed

lemma load_regs_access_failed_regs:
  "fst (load_regs_access r b) \<noteq> 0 \<Longrightarrow> regs (snd (load_regs_access r b)) = regs b"
  by (simp add: load_regs_access_def mod_reg_failed_regs write_reg_failed_regs split: if_splits)

lemma load_regs_access_quiet:
  "replies b = [] \<Longrightarrow> reg_addr r \<le> OV6211_LAST_REG \<Longrightarrow>
   fst (load_regs_access r b) = 0 \<and> replies (snd (load_regs_access r b)) = []"
  by (simp add: load_regs_access_def mod_reg_quiet write_reg_quiet)

lemma load_regs_loop_xfers:
  "load_regs_loop ops b = (ret, b') \<Longrightarrow>
   \<exists>es. xfers b' = xfers b @ es
     \<and> (\<exists>k\<le>length ops. write_addrs es = map reg_addr (take k ops))
     \<and> (ret = 0 \<longrightarrow> write_addrs es = map reg_addr ops)"
proof (induction ops arbitrary: b)
  case Nil
  then have "ret = 0" "b' = b" by simp_all
  then show ?case by (intro exI [of _ "[]"]) simp
next
  case (Cons r rs)
  obtain ret1 b1 where acc: "load_regs_access r b = (ret1, b1)"
    by (metis surj_pair)
  obtain e1 where e1: "xfers b1 = xfers b @ e1"
    and w1: "write_addrs e1 = [reg_addr r] \<or> ret1 \<noteq> 0 \<and> write_addrs e1 = []"
    using load_regs_access_xfers [of r b] acc by auto
  show ?case
  proof (cases "ret1 = 0")
    case False
    then have "ret = ret1" "b' = b1"
      using Cons.prems acc by simp_all
    moreover have "\<exists>k\<le>length (r # rs). write_addrs e1 = map reg_addr (take k (r # rs))"
    proof (cases "write_addrs e1 = []")
      case True
      then show ?thesis by (intro exI [of _ 0]) simp
    next
      case False
      then have "write_addrs e1 = [reg_addr r]" using w1 by blast
      then show ?thesis by (intro exI [of _ 1]) simp
    qed
    ultimately have "xfers b' = xfers b @ e1
        \<and> (\<exists>k\<le>length (r # rs). write_addrs e1 = map reg_addr (take k (r # rs)))
        \<and> (ret = 0 \<longrightarrow> write_addrs e1 = map reg_addr (r # rs))"
      using e1 False by simp
    then show ?thesis by (rule exI)
  next
    case True
    define b2 where "b2 =
      (if delay_ms r \<noteq> 0
       then usleep_range (1000 * delay_ms r) (1000 * delay_ms r + 100) b1 else b1)"
    obtain e2 where e2: "xfers b2 = xfers b1 @ e2" and w2: "write_addrs e2 = []"
      by (cases "delay_ms r = 0") (simp_all add: b2_def usleep_range_def emit_def)
    have rest: "load_regs_loop rs b2 = (ret, b')"
      using Cons.prems acc True by (simp add: b2_def)
    from Cons.IH [OF rest] obtain es k where es: "xfers b' = xfers b2 @ es"
      and k: "k \<le> length rs" "write_addrs es = map reg_addr (take k rs)"
      and full: "ret = 0 \<longrightarrow> write_addrs es = map reg_addr rs"
      by blast
    have w1': "write_addrs e1 = [reg_addr r]"
      using w1 True by blast
    have all: "xfers b' = xfers b @ (e1 @ e2 @ es)"
      using e1 e2 es by simp
    have wa: "write_addrs (e1 @ e2 @ es) = reg_addr r # write_addrs es"
      by (simp add: write_addrs_append w1' w2)
    have "Suc k \<le> length (r # rs)
        \<and> write_addrs (e1 @ e2 @ es) = map reg_addr (take (Suc k) (r # rs))"
      using k wa by simp
    then have some: "\<exists>k\<le>length (r # rs).
        write_addrs (e1 @ e2 @ es) = map reg_addr (take k (r # rs))"
      by (rule exI)
    have whole: "ret = 0 \<longrightarrow> write_addrs (e1 @ e2 @ es) = map reg_addr (r # rs)"
      using wa full by simp
    from all some whole have "xfers b' = xfers b @ (e1 @ e2 @ es)
        \<and> (\<exists>k\<le>length (r # rs). write_addrs (e1 @ e2 @ es) = map reg_addr (take k (r # rs)))
        \<and> (ret = 0 \<longrightarrow> write_addrs (e1 @ e2 @ es) = map reg_addr (r # rs))"
      by (intro conjI)
    then show ?thesis by (rule exI)
  qed
qed

lemma load_regs_loop_failed:
  "load_regs_loop ops b = (ret, b') \<Longrightarrow> ret \<noteq> 0 \<Longrightarrow>
   \<exists>pre r post bm. ops = pre @ r # post \<and> load_regs_loop pre b = (0, bm)
     \<and> load_regs_access r bm = (ret, b')"
proof (induction ops arbitrary: b)
  case Nil
  then show ?case by simp
next
  case (Cons r rs)
  obtain ret1 b1 where acc: "load_regs_access r b = (ret1, b1)"
    by (metis surj_pair)
  show ?case
  proof (cases "ret1 = 0")
    case False
    then have "load_regs_access r b = (ret, b')"
      using Cons.prems acc by simp
    then have "r # rs = [] @ r # rs \<and> load_regs_loop [] b = (0, b)
        \<and> load_regs_access r b = (ret, b')"
      by simp
    then show ?thesis by blast
  next
    case True
    define b2 where "b2 =
      (if delay_ms r \<noteq> 0
       then usleep_range (1000 * delay_ms r) (1000 * delay_ms r + 100) b1 else b1)"
    have rest: "load_regs_loop rs b2 = (ret, b')"
      using Cons.prems acc True by (simp add: b2_def)
    from Cons.IH [OF rest Cons.prems(2)] obtain pre x post bm
      where sp: "rs = pre @ x # post" "load_regs_loop pre b2 = (0, bm)"
        "load_regs_access x bm = (ret, b')"
      by blast
    have "load_regs_loop (r # pre) b = (0, bm)"
      using acc True sp(2) by (simp add: b2_def)
    then have "r # rs = (r # pre) @ x # post \<and> load_regs_loop (r # pre) b = (0, bm)
        \<and> load_regs_access x bm = (ret, b')"
      using sp by simp
    then show ?thesis by blast
  qed
qed

lemma load_regs_loop_quiet:
  "replies b = [] \<Longrightarrow> \<forall>r\<in>set ops. reg_addr r \<le> OV6211_LAST_REG \<Longrightarrow>
   fst (load_regs_loop ops b) = 0"
proof (induction ops arbitrary: b)
  case Nil
  then show ?case by simp
next
  case (Cons r rs)
  obtain ret1 b1 where acc: "load_regs_access r b = (ret1, b1)"
    by (metis surj_pair)
  have q: "ret1 = 0" "replies b1 = []"
    using load_regs_access_quiet [of b r] Cons.prems acc by simp_all
  have "replies (if delay_ms r \<noteq> 0
       then usleep_range (1000 * delay_ms r) (1000 * delay_ms r + 100) b1 else b1) = []"
    using q by (simp add: usleep_range_def emit_def)
  then show ?case
    using Cons.IH Cons.prems(2) acc q by simp
qed

section \<open>Mask semantics of a register-script op\<close>

text \<open>
  C7. On a bus that acknowledges every transfer, a script of one op whose address the
  regmap accepts is applied as follows. With a zero mask the applier issues one plain
  write and the register holds \<open>val\<close> afterwards, whatever it held before. With a
  non-zero mask it reads the register, clears the masked bits of the byte read, ORs in
  \<open>val AND mask\<close> and writes the result back, so that only the masked bits change.
  The applier returns 0, and sleeps afterwards when the op carries a delay.
\<close>

theorem load_regs_mask_semantics:
  assumes "reg_data m = [r]" and "reg_data_size m = 1"
    and "reg_addr r \<le> OV6211_LAST_REG" and "replies b = []"
  shows "ov6211_load_regs m b =
    (0, b\<lparr>regs := (regs b)(reg_addr r :=
              (if mask_bits r = 0 then val r
               else (regs b (reg_addr r) AND NOT (mask_bits r)) OR (val r AND mask_bits r))),
          xfers := xfers b
            @ (if mask_bits r = 0 then [Wr (reg_addr r) (val r)]
               else [Rd (reg_addr r),
                     Wr (reg_addr r)
                        ((regs b (reg_addr r) AND NOT (mask_bits r)) OR (val r AND mask_bits r))])
            @ (if delay_ms r = 0 then []
               else [Usleep (1000 * delay_ms r) (1000 * delay_ms r + 100)])\<rparr>)"
  using assms
  by (simp add: ov6211_load_regs_def load_regs_access_def mod_reg_quiet write_reg_quiet
      usleep_range_def emit_def or.commute)

text \<open>
  The example of the specification: mask \<open>0x0F\<close> and value \<open>0x05\<close> on a register holding
  \<open>0xA3\<close> store \<open>0xA5\<close>; the same op with mask 0 stores \<open>0x05\<close>.
\<close>

theorem load_regs_mask_semantics_witness:
  "regs (snd (ov6211_load_regs
       \<lparr>mode_id = OV6211_MODE_Y8_400_200, width = 400, height = 200,
        reg_data = [REG 0x3503 0x05 0x0f 0], reg_data_size = 1, pixel_clock = 19200000\<rparr>
       (quiet_bus ((\<lambda>a. 0)(0x3503 := 0xA3))))) 0x3503 = 0xA5
   \<and> xfers (snd (ov6211_load_regs
       \<lparr>mode_id = OV6211_MODE_Y8_400_200, width = 400, height = 200,
        reg_data = [REG 0x3503 0x05 0x0f 0], reg_data_size = 1, pixel_clock = 19200000\<rparr>
       (quiet_bus ((\<lambda>a. 0)(0x3503 := 0xA3))))) = [Rd 0x3503, Wr 0x3503 0xA5]
   \<and> regs (snd (ov6211_load_regs
       \<lparr>mode_id = OV6211_MODE_Y8_400_200, width = 400, height = 200,
        reg_data = [REG 0x3503 0x05 0 0], reg_data_size = 1, pixel_clock = 19200000\<rparr>
       (quiet_bus ((\<lambda>a. 0)(0x3503 := 0xA3))))) 0x3503 = 0x05"
proof -
  let ?b = "quiet_bus ((\<lambda>a. 0)(0x3503 := 0xA3))"
  let ?m = "\<lambda>k. \<lparr>mode_id = OV6211_MODE_Y8_400_200, width = 400, height = 200,
        reg_data = [REG 0x3503 0x05 k 0], reg_data_size = 1, pixel_clock = 19200000\<rparr>"
  have q: "replies ?b = []"
    by (simp add: quiet_bus_def)
  have masked: "regs (snd (ov6211_load_regs (?m 0x0f) ?b)) 0x3503 = 0xA5
      \<and> xfers (snd (ov6211_load_regs (?m 0x0f) ?b)) = [Rd 0x3503, Wr 0x3503 0xA5]"
    using load_regs_mask_semantics [of "?m 0x0f" "REG 0x3503 0x05 0x0f 0" ?b] q
    by (simp add: quiet_bus_def)
  have plain: "regs (snd (ov6211_load_regs (?m 0) ?b)) 0x3503 = 0x05"
    using load_regs_mask_semantics [of "?m 0" "REG 0x3503 0x05 0 0" ?b] q
    by simp
  from masked plain show ?thesis by simp
qed

section \<open>Order, abort and result of the script applier\<close>

text \<open>
  C8. Let \<open>ops\<close> be the script \<open>ov6211_load_regs\<close> walks, and let it return \<open>ret\<close>
  and leave the bus \<open>b'\<close>. The writes it put on the bus are those of the first \<open>k\<close> ops,
  in listed order, for some \<open>k\<close>. When \<open>ret\<close> is 0 these are the writes of all ops.
  When \<open>ret\<close> is not 0 the script splits into the ops before a failing op \<open>r\<close>, which
  ran to the end with result 0, the op \<open>r\<close>, whose access returned \<open>ret\<close> and left
  the bus as the applier returns it (nothing after \<open>r\<close> was issued), and the rest; the
  register file is the one the earlier ops left (nothing is rolled back). When the bus
  acknowledges every transfer and the regmap accepts every address, \<open>ret\<close> is 0.
\<close>

theorem load_regs_in_order_first_error:
  assumes "ov6211_load_regs m b = (ret, b')"
    and "ops = take (unat (reg_data_size m)) (reg_data m)"
  shows "(\<exists>k\<le>length ops. write_addrs (issued b b') = map reg_addr (take k ops))
    \<and> (ret = 0 \<longrightarrow> write_addrs (issued b b') = map reg_addr ops)
    \<and> (ret \<noteq> 0 \<longrightarrow>
         (\<exists>pre r post bm. ops = pre @ r # post \<and> load_regs_loop pre b = (0, bm)
            \<and> load_regs_access r bm = (ret, b') \<and> regs b' = regs bm))
    \<and> (replies b = [] \<and> (\<forall>r\<in>set ops. reg_addr r \<le> OV6211_LAST_REG) \<longrightarrow> ret = 0)"
proof -
  have run: "load_regs_loop ops b = (ret, b')"
    using assms by (simp add: ov6211_load_regs_def)
  from load_regs_loop_xfers [OF run] obtain es where es: "xfers b' = xfers b @ es"
    and pre: "\<exists>k\<le>length ops. write_addrs es = map reg_addr (take k ops)"
    and full: "ret = 0 \<longrightarrow> write_addrs es = map reg_addr ops"
    by blast
  have iss: "issued b b' = es"
    using es by (rule issued_append)
  have failed: "\<exists>pre r post bm. ops = pre @ r # post \<and> load_regs_loop pre b = (0, bm)
      \<and> load_regs_access r bm = (ret, b') \<and> regs b' = regs bm" if nz: "ret \<noteq> 0"
  proof -
    from load_regs_loop_failed [OF run nz] obtain pre r post bm
      where sp: "ops = pre @ r # post" "load_regs_loop pre b = (0, bm)"
        "load_regs_access r bm = (ret, b')"
      by blast
    have "regs b' = regs bm"
      using load_regs_access_failed_regs [of r bm] sp(3) nz by simp
    with sp show ?thesis by blast
  qed
  have quiet: "ret = 0"
    if "replies b = [] \<and> (\<forall>r\<in>set ops. reg_addr r \<le> OV6211_LAST_REG)"
    using load_regs_loop_quiet [of b ops] that run by simp
  show ?thesis
    using pre full failed quiet unfolding iss by blast
qed

text \<open>
  A script of three plain writes on a bus that refuses the second transfer with
  \<^verbatim>\<open>-EIO\<close>: the applier returns \<open>-5\<close>, the first two writes were issued, the third
  was not, and the first register keeps its new value.
\<close>

theorem load_regs_in_order_first_error_witness:
  "ov6211_load_regs
     \<lparr>mode_id = OV6211_MODE_Y8_400_200, width = 400, height = 200,
      reg_data = [REG 0x3005 0x08 0 0, REG 0x3013 0x12 0 0, REG 0x3014 0x04 0 0],
      reg_data_size = 3, pixel_clock = 19200000\<rparr>
     \<lparr>regs = (\<lambda>a. 0), replies = [(0, 0), (- 5, 0)], xfers = []\<rparr>
   = (- 5, \<lparr>regs = (\<lambda>a. 0)(0x3005 := 0x08), replies = [],
            xfers = [Wr 0x3005 0x08, Wr 0x3013 0x12]\<rparr>)
   \<and> (\<exists>pre r post bm.
         [REG 0x3005 0x08 0 0, REG 0x3013 0x12 0 0, REG 0x3014 0x04 0 0] = pre @ r # post
         \<and> load_regs_loop pre \<lparr>regs = (\<lambda>a. 0), replies = [(0, 0), (- 5, 0)], xfers = []\<rparr>
             = (0, bm)
         \<and> load_regs_access r bm
             = (- 5, \<lparr>regs = (\<lambda>a. 0)(0x3005 := 0x08), replies = [],
                      xfers = [Wr 0x3005 0x08, Wr 0x3013 0x12]\<rparr>)
         \<and> (\<lambda>a. 0)(0x3005 := 0x08) = regs bm)"
proof -
  let ?m = "\<lparr>mode_id = OV6211_MODE_Y8_400_200, width = 400, height = 200,
      reg_data = [REG 0x3005 0x08 0 0, REG 0x3013 0x12 0 0, REG 0x3014 0x04 0 0],
      reg_data_size = 3, pixel_clock = 19200000\<rparr>"
  let ?b = "\<lparr>regs = (\<lambda>a. 0), replies = [(0, 0), (- 5, 0)], xfers = []\<rparr>"
  let ?b' = "\<lparr>regs = (\<lambda>a. 0)(0x3005 := 0x08), replies = [],
      xfers = [Wr 0x3005 0x08, Wr 0x3013 0x12]\<rparr>"
  have run: "ov6211_load_regs ?m ?b = (- 5, ?b')"
    by (simp add: ov6211_load_regs_def load_regs_access_def ov6211_write_reg_def
        regmap_write_def next_reply_def emit_def)
  have ops: "[REG 0x3005 0x08 0 0, REG 0x3013 0x12 0 0, REG 0x3014 0x04 0 0]
      = take (unat (reg_data_size ?m)) (reg_data ?m)"
    by simp
  from load_regs_in_order_first_error [OF run ops] run show ?thesis
    by simp
qed

section \<open>Word arithmetic of the register fields\<close>

lemma and_ff_u32: "unat ((x :: u32) AND 0xff) = unat x mod 256"
proof -
  have m: "(0xff :: u32) = mask 8"
    by (simp add: mask_eq_exp_minus_1)
  show ?thesis
    unfolding m
    by (simp add: take_bit_eq_mask [symmetric] take_bit_eq_mod unat_mod)
qed

lemma and_0f_u32: "unat ((x :: u32) AND 0x0f) = unat x mod 16"
proof -
  have m: "(0x0f :: u32) = mask 4"
    by (simp add: mask_eq_exp_minus_1)
  show ?thesis
    unfolding m
    by (simp add: take_bit_eq_mask [symmetric] take_bit_eq_mod unat_mod)
qed

lemma ucast_u8_unat: "unat (ucast (x :: u32) :: u8) = unat x mod 256"
  by (simp add: unsigned_ucast_eq take_bit_eq_mod)

lemma ucast_u32_unat: "unat (ucast (x :: u8) :: u32) = unat x"
  using unsigned_less [of x, where ?'a = nat]
  by (simp add: unsigned_ucast_eq take_bit_eq_mod)

lemma tvts_word:
  "unat ((push_bit 8 (ucast (h::u8)) OR ucast (l::u8)) :: u32) = 256 * unat h + unat l"
proof -
  have d: "(push_bit 8 (ucast h) :: u32) AND ucast l = 0"
    by (rule bit_word_eqI) (auto simp add: bit_simps dest: bit_imp_le_length)
  have s: "(push_bit 8 (ucast h) OR ucast l :: u32) = push_bit 8 (ucast h) + ucast l"
    using disjunctive_add_eq_or [OF d] by simp
  have hb: "unat h < 256" and lb: "unat l < 256"
    using unsigned_less [of h, where ?'a = nat] unsigned_less [of l, where ?'a = nat] by simp_all
  have "unat (push_bit 8 (ucast h) :: u32) = (unat h * 256) mod 4294967296"
    by (simp add: push_bit_eq_mult unat_word_ariths ucast_u32_unat)
  then have p: "unat (push_bit 8 (ucast h) :: u32) = 256 * unat h"
    using hb by simp
  have "unat (push_bit 8 (ucast h) + ucast l :: u32) = (256 * unat h + unat l) mod 4294967296"
    by (simp only: unat_word_ariths p ucast_u32_unat) simp
  then show ?thesis
    unfolding s using hb lb by simp
qed

lemma expo3: "unat (ucast (push_bit 4 (e :: u32) AND 0xf0) :: u8) = 16 * (unat e mod 16)"
proof -
  have m: "(0xf0 :: u32) = push_bit 4 0x0f"
    by simp
  have "push_bit 4 e AND (0xf0 :: u32) = push_bit 4 (e AND 0x0f)"
    unfolding m by (simp only: push_bit_and)
  moreover have "unat (push_bit 4 (e AND 0x0f) :: u32) = 16 * (unat e mod 16)"
  proof -
    have "unat (push_bit 4 (e AND 0x0f) :: u32) = (unat e mod 16 * 16) mod 4294967296"
      by (simp add: push_bit_eq_mult unat_word_ariths and_0f_u32)
    moreover have "unat e mod 16 < 16" by simp
    ultimately show ?thesis by simp
  qed
  moreover have "16 * (unat e mod 16) < 256"
    by (simp add: mult.commute)
  ultimately show ?thesis
    by (simp add: ucast_u8_unat)
qed

section \<open>Exposure programming\<close>

lemma set_exposure_ret: "fst (ov6211_set_exposure expo b) = 0"
  by (simp add: ov6211_set_exposure_def Let_def)

lemma mod_reg_shape:
  assumes "reg \<le> OV6211_LAST_REG"
  shows "\<exists>em. xfers (snd (ov6211_mod_reg reg m v b)) = xfers b @ em
     \<and> (em = [Rd reg] \<or> (\<exists>w. em = [Rd reg, Wr reg w]))"
proof -
  obtain ret rv b1 where rd: "ov6211_read_reg reg b = ((ret, rv), b1)"
    by (metis surj_pair)
  have x1: "xfers b1 = xfers b @ [Rd reg]"
    using read_reg_xfers [of reg b] rd assms by (simp add: linorder_not_less)
  show ?thesis
  proof (cases "ret = 0")
    case True
    then have "xfers (snd (ov6211_mod_reg reg m v b))
        = xfers b @ [Rd reg, Wr reg ((v AND m) OR (rv AND NOT m))]"
      using rd x1 assms write_reg_xfers [of reg "(v AND m) OR (rv AND NOT m)" b1]
      by (simp add: ov6211_mod_reg_def linorder_not_less)
    then show ?thesis by blast
  next
    case False
    then have "xfers (snd (ov6211_mod_reg reg m v b)) = xfers b @ [Rd reg]"
      using rd x1 by (simp add: ov6211_mod_reg_def)
    then show ?thesis by blast
  qed
qed

lemma set_exposure_xfers:
  "\<exists>em v1 v2 v3 v4 v5 v6.
     xfers (snd (ov6211_set_exposure expo b)) =
       xfers b @ [Rd OV6211_TVTS_HI, Rd OV6211_TVTS_LO] @ em
         @ [Wr OV6211_AEC_EXPO1 v1, Wr OV6211_AEC_EXPO2 v2, Wr OV6211_AEC_EXPO3 v3,
            Wr OV6211_STROBE_SPAN1 v4, Wr OV6211_STROBE_SPAN2 v5, Wr OV6211_STROBE_SPAN3 v6]
     \<and> (em = [Rd OV6211_AEC_MANUAL] \<or> (\<exists>w. em = [Rd OV6211_AEC_MANUAL, Wr OV6211_AEC_MANUAL w]))"
proof -
  define b2 where "b2 = snd (ov6211_read_reg OV6211_TVTS_LO (snd (ov6211_read_reg OV6211_TVTS_HI b)))"
  have x2: "xfers b2 = xfers b @ [Rd OV6211_TVTS_HI, Rd OV6211_TVTS_LO]"
    by (simp add: b2_def read_reg_xfers)
  obtain em where em: "xfers (snd (ov6211_mod_reg OV6211_AEC_MANUAL 1 1 b2)) = xfers b2 @ em"
    and sh: "em = [Rd OV6211_AEC_MANUAL] \<or> (\<exists>w. em = [Rd OV6211_AEC_MANUAL, Wr OV6211_AEC_MANUAL w])"
    using mod_reg_shape [of OV6211_AEC_MANUAL 1 1 b2] by auto
  show ?thesis
    using sh
    by (simp add: ov6211_set_exposure_def Let_def write_reg_xfers em [unfolded b2_def]
        x2 [unfolded b2_def])
qed

lemma set_exposure_quiet:
  assumes "replies b = []"
  shows "ov6211_set_exposure expo b =
    (let ce = (push_bit 8 (ucast (regs b OV6211_TVTS_HI)) OR ucast (regs b OV6211_TVTS_LO)) - 4;
         e = (if ce < expo then ce else expo)
     in (0, b\<lparr>regs := (regs b)
              (OV6211_AEC_MANUAL := 1 OR (regs b OV6211_AEC_MANUAL AND NOT 1),
               OV6211_AEC_EXPO1 := ucast (drop_bit 12 e AND 0x0f),
               OV6211_AEC_EXPO2 := ucast (drop_bit 4 e AND 0xff),
               OV6211_AEC_EXPO3 := ucast (push_bit 4 e AND 0xf0),
               OV6211_STROBE_SPAN1 := ucast (drop_bit 16 e AND 0xff),
               OV6211_STROBE_SPAN2 := ucast (drop_bit 8 e AND 0xff),
               OV6211_STROBE_SPAN3 := ucast (e AND 0xff)),
            xfers := xfers b @
              [Rd OV6211_TVTS_HI, Rd OV6211_TVTS_LO, Rd OV6211_AEC_MANUAL,
               Wr OV6211_AEC_MANUAL (1 OR (regs b OV6211_AEC_MANUAL AND NOT 1)),
               Wr OV6211_AEC_EXPO1 (ucast (drop_bit 12 e AND 0x0f)),
               Wr OV6211_AEC_EXPO2 (ucast (drop_bit 4 e AND 0xff)),
               Wr OV6211_AEC_EXPO3 (ucast (push_bit 4 e AND 0xf0)),
               Wr OV6211_STROBE_SPAN1 (ucast (drop_bit 16 e AND 0xff)),
               Wr OV6211_STROBE_SPAN2 (ucast (drop_bit 8 e AND 0xff)),
               Wr OV6211_STROBE_SPAN3 (ucast (e AND 0xff))]\<rparr>))"
  using assms
  by (simp add: ov6211_set_exposure_def Let_def read_reg_quiet mod_reg_quiet write_reg_quiet)

lemma read_reg_rc:
  assumes "reg \<le> OV6211_LAST_REG"
  shows "fst (fst (ov6211_read_reg reg b)) = (case replies b of [] \<Rightarrow> 0 | r # rs \<Rightarrow> fst r)"
proof -
  have nl: "\<not> OV6211_LAST_REG < reg"
    using assms by (simp add: linorder_not_less)
  show ?thesis
    using nl
    by (simp add: ov6211_read_reg_def regmap_read_def next_reply_def
        split: list.split prod.split)
qed

lemma read_reg_value:
  assumes "reg \<le> OV6211_LAST_REG" and "fst (fst (ov6211_read_reg reg b)) = 0"
  shows "snd (fst (ov6211_read_reg reg b)) = regs b reg"
proof -
  have nl: "\<not> OV6211_LAST_REG < reg"
    using assms(1) by (simp add: linorder_not_less)
  show ?thesis
    using nl assms(2)
    by (auto simp add: ov6211_read_reg_def regmap_read_def next_reply_def
        ucast_byte_roundtrip split: list.splits prod.splits if_splits)
qed

lemma read_reg_replies: "replies (snd (ov6211_read_reg reg b)) = tl (replies b)"
  by (simp add: ov6211_read_reg_def regmap_read_def next_reply_def emit_def
      split: list.split prod.split)

lemma tl_tl_drop: "tl (tl xs) = drop 2 xs"
  by (cases xs; cases "tl xs") simp_all

lemma mod_reg_trace:
  assumes "reg \<le> OV6211_LAST_REG"
  shows "xfers (snd (ov6211_mod_reg reg m v b)) =
     xfers b @ Rd reg #
       (if (case replies b of [] \<Rightarrow> 0 | r # rs \<Rightarrow> fst r) = 0
        then [Wr reg ((v AND m) OR (regs b reg AND NOT m))] else [])"
proof -
  obtain ret rv b1 where rd: "ov6211_read_reg reg b = ((ret, rv), b1)"
    by (metis surj_pair)
  have rc: "ret = (case replies b of [] \<Rightarrow> 0 | r # rs \<Rightarrow> fst r)"
    using read_reg_rc [OF assms, of b] rd by simp
  have x1: "xfers b1 = xfers b @ [Rd reg]"
    using read_reg_xfers [of reg b] rd assms by (simp add: linorder_not_less)
  show ?thesis
  proof (cases "ret = 0")
    case True
    then have "rv = regs b reg"
      using read_reg_value [OF assms, of b] rd by simp
    then show ?thesis
      using True rd x1 assms rc write_reg_xfers [of reg "(v AND m) OR (rv AND NOT m)" b1]
      by (simp add: ov6211_mod_reg_def linorder_not_less)
  next
    case False
    then show ?thesis
      using rd x1 rc by (simp add: ov6211_mod_reg_def)
  qed
qed

lemma set_exposure_trace:
  "\<exists>v1 v2 v3 v4 v5 v6.
     xfers (snd (ov6211_set_exposure expo b)) =
       xfers b @ [Rd OV6211_TVTS_HI, Rd OV6211_TVTS_LO, Rd OV6211_AEC_MANUAL]
         @ (if (case drop 2 (replies b) of [] \<Rightarrow> 0 | r # rs \<Rightarrow> fst r) = 0
            then [Wr OV6211_AEC_MANUAL (1 OR (regs b OV6211_AEC_MANUAL AND NOT 1))] else [])
         @ [Wr OV6211_AEC_EXPO1 v1, Wr OV6211_AEC_EXPO2 v2, Wr OV6211_AEC_EXPO3 v3,
            Wr OV6211_STROBE_SPAN1 v4, Wr OV6211_STROBE_SPAN2 v5, Wr OV6211_STROBE_SPAN3 v6]"
proof -
  define b2 where "b2 = snd (ov6211_read_reg OV6211_TVTS_LO (snd (ov6211_read_reg OV6211_TVTS_HI b)))"
  have x2: "xfers b2 = xfers b @ [Rd OV6211_TVTS_HI, Rd OV6211_TVTS_LO]"
    by (simp add: b2_def read_reg_xfers)
  have r2: "replies b2 = drop 2 (replies b)"
    by (simp add: b2_def read_reg_replies tl_tl_drop)
  have g2: "regs b2 = regs b"
    by (simp add: b2_def read_reg_regs)
  have m: "xfers (snd (ov6211_mod_reg OV6211_AEC_MANUAL 1 1 b2)) =
      xfers b2 @ Rd OV6211_AEC_MANUAL #
       (if (case drop 2 (replies b) of [] \<Rightarrow> 0 | r # rs \<Rightarrow> fst r) = 0
        then [Wr OV6211_AEC_MANUAL (1 OR (regs b OV6211_AEC_MANUAL AND NOT 1))] else [])"
    using mod_reg_trace [of OV6211_AEC_MANUAL 1 1 b2] by (simp add: r2 g2)
  show ?thesis
    by (simp add: ov6211_set_exposure_def Let_def write_reg_xfers m [unfolded b2_def]
        x2 [unfolded b2_def])
qed

lemma clamp_unat:
  fixes h l :: u8 and expo :: u32
  defines "T \<equiv> 256 * unat h + unat l"
  assumes "4 \<le> T"
  shows "unat (if (push_bit 8 (ucast h) OR ucast l) - 4 < expo
               then (push_bit 8 (ucast h) OR ucast l) - 4 else expo)
         = min (unat expo) (T - 4)"
proof -
  let ?t = "push_bit 8 (ucast h) OR ucast l :: u32"
  have t: "unat ?t = T"
    by (simp add: T_def tvts_word)
  have "(4 :: u32) \<le> ?t"
    using assms(2) t by (simp add: word_le_nat_alt)
  then have ce: "unat (?t - 4) = T - 4"
    using t by (simp add: unat_sub)
  show ?thesis
    by (simp add: word_less_nat_alt ce min_def)
qed

lemma split16:
  assumes "(n::nat) < 65536"
  shows "4096 * (n div 4096 mod 16 mod 256 mod 16) + 16 * (n div 16 mod 256 mod 256)
       + 16 * (n mod 16) div 16 = n"
proof -
  have a: "n mod 65536 = 4096 * (n div 4096 mod 16) + n mod 4096"
    using mod_mult2_eq [of n 4096 16] by simp
  have b: "n mod 4096 = 16 * (n div 16 mod 256) + n mod 16"
    using mod_mult2_eq [of n 16 256] by simp
  have "n div 4096 mod 16 < 16"
    by simp
  then have c: "n div 4096 mod 16 mod 256 = n div 4096 mod 16"
    by simp
  have "n mod 65536 = n"
    using assms by simp
  then show ?thesis
    using a b by (simp add: c)
qed

lemma split24:
  assumes "(n::nat) < 65536"
  shows "65536 * (n div 65536 mod 256 mod 256) + 256 * (n div 256 mod 256 mod 256)
       + n mod 256 mod 256 = n"
proof -
  have b: "n mod 65536 = 256 * (n div 256 mod 256) + n mod 256"
    using mod_mult2_eq [of n 256 256] by simp
  have "n mod 65536 = n" "n div 65536 = 0"
    using assms by simp_all
  then show ?thesis
    using b by simp
qed

lemma exposure_fields:
  fixes e :: u32
  assumes "unat e < 65536"
  shows "4096 * (unat (ucast (drop_bit 12 e AND 0x0f) :: u8) mod 16)
           + 16 * unat (ucast (drop_bit 4 e AND 0xff) :: u8)
           + unat (ucast (push_bit 4 e AND 0xf0) :: u8) div 16 = unat e"
    and "65536 * unat (ucast (drop_bit 16 e AND 0xff) :: u8)
           + 256 * unat (ucast (drop_bit 8 e AND 0xff) :: u8)
           + unat (ucast (e AND 0xff) :: u8) = unat e"
proof -
  have f1: "unat (ucast (drop_bit 12 e AND 0x0f) :: u8) = unat e div 4096 mod 16 mod 256"
    by (simp only: ucast_u8_unat and_0f_u32 drop_bit_eq_div unat_div) simp
  have f2: "unat (ucast (drop_bit 4 e AND 0xff) :: u8) = unat e div 16 mod 256 mod 256"
    by (simp only: ucast_u8_unat and_ff_u32 drop_bit_eq_div unat_div) simp
  have f3: "unat (ucast (push_bit 4 e AND 0xf0) :: u8) = 16 * (unat e mod 16)"
    by (simp only: expo3)
  have f4: "unat (ucast (drop_bit 16 e AND 0xff) :: u8) = unat e div 65536 mod 256 mod 256"
    by (simp only: ucast_u8_unat and_ff_u32 drop_bit_eq_div unat_div) simp
  have f5: "unat (ucast (drop_bit 8 e AND 0xff) :: u8) = unat e div 256 mod 256 mod 256"
    by (simp only: ucast_u8_unat and_ff_u32 drop_bit_eq_div unat_div) simp
  have f6: "unat (ucast (e AND 0xff) :: u8) = unat e mod 256 mod 256"
    by (simp only: ucast_u8_unat and_ff_u32)
  show "4096 * (unat (ucast (drop_bit 12 e AND 0x0f) :: u8) mod 16)
           + 16 * unat (ucast (drop_bit 4 e AND 0xff) :: u8)
           + unat (ucast (push_bit 4 e AND 0xf0) :: u8) div 16 = unat e"
    using split16 [OF assms] by (simp only: f1 f2 f3)
  show "65536 * unat (ucast (drop_bit 16 e AND 0xff) :: u8)
           + 256 * unat (ucast (drop_bit 8 e AND 0xff) :: u8)
           + unat (ucast (e AND 0xff) :: u8) = unat e"
    using split24 [OF assms] by (simp only: f4 f5 f6)
qed

section \<open>Exposure clamp\<close>

text \<open>
  C5. On a bus that acknowledges every transfer, \<open>ov6211_set_exposure\<close> first reads
  the total vertical timing, high byte then low byte. When that 16-bit value \<open>T\<close> is at
  least 4, the exposure registers and the strobe-span registers hold
  \<open>min requested (T - 4)\<close> afterwards, the timing registers are as they were, and the
  function returns 0 whether or not the request was clamped.
\<close>

theorem set_exposure_clamps_to_tvts_minus_4:
  assumes "replies b = []" and "4 \<le> tvts_lines (regs b)"
    and "ov6211_set_exposure expo b = (ret, b')"
  shows "ret = 0
    \<and> take 2 (issued b b') = [Rd OV6211_TVTS_HI, Rd OV6211_TVTS_LO]
    \<and> aec_exposure (regs b') = min (unat expo) (tvts_lines (regs b) - 4)
    \<and> strobe_span (regs b') = min (unat expo) (tvts_lines (regs b) - 4)
    \<and> tvts_lines (regs b') = tvts_lines (regs b)"
proof -
  define e where "e =
    (if (push_bit 8 (ucast (regs b OV6211_TVTS_HI)) OR ucast (regs b OV6211_TVTS_LO)) - 4 < expo
     then (push_bit 8 (ucast (regs b OV6211_TVTS_HI)) OR ucast (regs b OV6211_TVTS_LO)) - 4
     else expo)"
  have ue: "unat e = min (unat expo) (tvts_lines (regs b) - 4)"
    unfolding e_def tvts_lines_def
    using assms(2) by (intro clamp_unat) (simp add: tvts_lines_def)
  have "tvts_lines (regs b) < 65536"
    using unsigned_less [of "regs b OV6211_TVTS_HI", where ?'a = nat]
      unsigned_less [of "regs b OV6211_TVTS_LO", where ?'a = nat]
    by (simp add: tvts_lines_def)
  then have small: "unat e < 65536"
    using ue by simp
  have res: "ret = 0" "xfers b' = xfers b @
      [Rd OV6211_TVTS_HI, Rd OV6211_TVTS_LO, Rd OV6211_AEC_MANUAL,
       Wr OV6211_AEC_MANUAL (1 OR (regs b OV6211_AEC_MANUAL AND NOT 1)),
       Wr OV6211_AEC_EXPO1 (ucast (drop_bit 12 e AND 0x0f)),
       Wr OV6211_AEC_EXPO2 (ucast (drop_bit 4 e AND 0xff)),
       Wr OV6211_AEC_EXPO3 (ucast (push_bit 4 e AND 0xf0)),
       Wr OV6211_STROBE_SPAN1 (ucast (drop_bit 16 e AND 0xff)),
       Wr OV6211_STROBE_SPAN2 (ucast (drop_bit 8 e AND 0xff)),
       Wr OV6211_STROBE_SPAN3 (ucast (e AND 0xff))]"
    "regs b' = (regs b)
      (OV6211_AEC_MANUAL := 1 OR (regs b OV6211_AEC_MANUAL AND NOT 1),
       OV6211_AEC_EXPO1 := ucast (drop_bit 12 e AND 0x0f),
       OV6211_AEC_EXPO2 := ucast (drop_bit 4 e AND 0xff),
       OV6211_AEC_EXPO3 := ucast (push_bit 4 e AND 0xf0),
       OV6211_STROBE_SPAN1 := ucast (drop_bit 16 e AND 0xff),
       OV6211_STROBE_SPAN2 := ucast (drop_bit 8 e AND 0xff),
       OV6211_STROBE_SPAN3 := ucast (e AND 0xff))"
    using assms(3) unfolding set_exposure_quiet [OF assms(1)] Let_def e_def [symmetric]
    by auto
  have "take 2 (issued b b') = [Rd OV6211_TVTS_HI, Rd OV6211_TVTS_LO]"
    by (simp add: issued_def res(2))
  moreover have "aec_exposure (regs b') = unat e"
    unfolding aec_exposure_def res(3) using exposure_fields(1) [OF small] by simp
  moreover have "strobe_span (regs b') = unat e"
    unfolding strobe_span_def res(3) using exposure_fields(2) [OF small] by simp
  moreover have "tvts_lines (regs b') = tvts_lines (regs b)"
    by (simp add: tvts_lines_def res(3))
  ultimately show ?thesis
    using res(1) ue by simp
qed

text \<open>
  The example of the specification: with the total vertical timing reading \<open>0x036C\<close>
  (876), a request of 900 is applied as 872 and a request of 100 as 100; both calls
  return 0.
\<close>

theorem set_exposure_clamps_to_tvts_minus_4_witness:
  "fst (ov6211_set_exposure 900 (quiet_bus ((\<lambda>a. 0)(0x380e := 0x03, 0x380f := 0x6c)))) = 0
   \<and> aec_exposure (regs (snd (ov6211_set_exposure 900
        (quiet_bus ((\<lambda>a. 0)(0x380e := 0x03, 0x380f := 0x6c)))))) = 872
   \<and> strobe_span (regs (snd (ov6211_set_exposure 900
        (quiet_bus ((\<lambda>a. 0)(0x380e := 0x03, 0x380f := 0x6c)))))) = 872
   \<and> fst (ov6211_set_exposure 100 (quiet_bus ((\<lambda>a. 0)(0x380e := 0x03, 0x380f := 0x6c)))) = 0
   \<and> aec_exposure (regs (snd (ov6211_set_exposure 100
        (quiet_bus ((\<lambda>a. 0)(0x380e := 0x03, 0x380f := 0x6c)))))) = 100
   \<and> strobe_span (regs (snd (ov6211_set_exposure 100
        (quiet_bus ((\<lambda>a. 0)(0x380e := 0x03, 0x380f := 0x6c)))))) = 100"
proof -
  let ?b = "quiet_bus ((\<lambda>a. 0)(0x380e := 0x03, 0x380f := 0x6c))"
  have q: "replies ?b = []"
    by (simp add: quiet_bus_def)
  have t: "tvts_lines (regs ?b) = 876"
    by (simp add: quiet_bus_def tvts_lines_def)
  have four: "4 \<le> tvts_lines (regs ?b)"
    by (simp add: t)
  have a: "fst (ov6211_set_exposure 900 ?b) = 0
      \<and> aec_exposure (regs (snd (ov6211_set_exposure 900 ?b))) = 872
      \<and> strobe_span (regs (snd (ov6211_set_exposure 900 ?b))) = 872"
    using set_exposure_clamps_to_tvts_minus_4 [OF q four, of 900
        "fst (ov6211_set_exposure 900 ?b)" "snd (ov6211_set_exposure 900 ?b)"]
    by (simp add: t)
  have c: "fst (ov6211_set_exposure 100 ?b) = 0
      \<and> aec_exposure (regs (snd (ov6211_set_exposure 100 ?b))) = 100
      \<and> strobe_span (regs (snd (ov6211_set_exposure 100 ?b))) = 100"
    using set_exposure_clamps_to_tvts_minus_4 [OF q four, of 100
        "fst (ov6211_set_exposure 100 ?b)" "snd (ov6211_set_exposure 100 ?b)"]
    by (simp add: t)
  from a c show ?thesis by simp
qed

section \<open>Exposure clamp when the timing reads below 4\<close>

text \<open>
  C6. The bound \<open>applied \<le> T - 4\<close> fails when the total vertical timing reads below 4:
  \<^verbatim>\<open>ce -= 4\<close> wraps to a value near \<open>2^32\<close>, the comparison \<^verbatim>\<open>ce < exposure\<close> is
  false, and the request is applied as it came. With the timing reading 3 and a request
  of 900, the exposure and strobe registers hold 900 afterwards, more than the whole
  frame has lines.
\<close>

theorem set_exposure_underflow_below_4:
  "tvts_lines (regs (quiet_bus ((\<lambda>a. 0)(0x380e := 0x00, 0x380f := 0x03)))) = 3
   \<and> aec_exposure (regs (snd (ov6211_set_exposure 900
        (quiet_bus ((\<lambda>a. 0)(0x380e := 0x00, 0x380f := 0x03)))))) = 900
   \<and> strobe_span (regs (snd (ov6211_set_exposure 900
        (quiet_bus ((\<lambda>a. 0)(0x380e := 0x00, 0x380f := 0x03)))))) = 900
   \<and> tvts_lines (regs (snd (ov6211_set_exposure 900
        (quiet_bus ((\<lambda>a. 0)(0x380e := 0x00, 0x380f := 0x03)))))) = 3"
  by (simp add: set_exposure_quiet quiet_bus_def tvts_lines_def aec_exposure_def
      strobe_span_def Let_def)

section \<open>Streaming\<close>

lemma soft_reset_xfers:
  "xfers (ov6211_soft_reset b) =
     xfers b @ [Wr OV6211_SC_SOFTWARE_RESET 1, Usleep 5000 9000, Wr OV6211_SC_SOFTWARE_RESET 0]"
  by (simp add: ov6211_soft_reset_def Let_def write_reg_xfers usleep_range_def emit_def)

lemma soft_reset_replies: "replies b = [] \<Longrightarrow> replies (ov6211_soft_reset b) = []"
  by (simp add: ov6211_soft_reset_def Let_def write_reg_quiet usleep_range_def emit_def)

lemma set_mode_ret: "fst (ov6211_set_mode sensor b) = 0"
  by (simp add: ov6211_set_mode_def Let_def)

lemma set_mode_xfers: "\<exists>es. xfers (snd (ov6211_set_mode sensor b)) = xfers b @ es"
proof -
  obtain ret b' where run: "load_regs_loop
      (take (unat (reg_data_size (cur_mode sensor))) (reg_data (cur_mode sensor)))
      (ov6211_soft_reset b) = (ret, b')"
    by (metis surj_pair)
  from load_regs_loop_xfers [OF run] obtain es
    where "xfers b' = xfers (ov6211_soft_reset b) @ es"
    by blast
  then have "xfers (snd (ov6211_set_mode sensor b)) =
      xfers b @ ([Wr OV6211_SC_SOFTWARE_RESET 1, Usleep 5000 9000,
                  Wr OV6211_SC_SOFTWARE_RESET 0] @ es)"
    using run by (simp add: ov6211_set_mode_def ov6211_load_regs_def Let_def soft_reset_xfers)
  then show ?thesis by (rule exI)
qed


lemma stream_tail_ret: "fst (internal_set_stream_tail sensor on b) = 0"
  by (simp add: internal_set_stream_tail_def Let_def)

lemma stream_tail_sensor:
  "fst (snd (internal_set_stream_tail sensor on b)) = sensor\<lparr>streaming := on\<rparr>"
  by (simp add: internal_set_stream_tail_def Let_def)

lemma stream_tail_off_xfers:
  "xfers (snd (snd (internal_set_stream_tail sensor False b))) =
     xfers b @ [Wr OV6211_SC_MODE_SELECT 0]"
  by (simp add: internal_set_stream_tail_def Let_def write_reg_xfers)

lemma stream_tail_on_xfers:
  "\<exists>es. xfers (snd (snd (internal_set_stream_tail sensor True b))) =
       xfers b @ Wr OV6211_SC_MODE_SELECT 0 # Usleep 4000 5000 # es @ [Wr OV6211_SC_MODE_SELECT 1]
     \<and> filter is_tvts_write es = []"
proof (cases "exposure sensor = 0")
  case True
  then have "xfers (snd (snd (internal_set_stream_tail sensor True b))) =
      xfers b @ Wr OV6211_SC_MODE_SELECT 0 # Usleep 4000 5000 # [] @ [Wr OV6211_SC_MODE_SELECT 1]
      \<and> filter is_tvts_write [] = []"
    by (simp add: internal_set_stream_tail_def Let_def write_reg_xfers usleep_range_def emit_def)
  then show ?thesis by (rule exI)
next
  case False
  define b2 where "b2 = usleep_range 4000 5000 (snd (ov6211_write_reg OV6211_SC_MODE_SELECT 0 b))"
  have x2: "xfers b2 = xfers b @ [Wr OV6211_SC_MODE_SELECT 0, Usleep 4000 5000]"
    by (simp add: b2_def write_reg_xfers usleep_range_def emit_def)
  from set_exposure_xfers [of "exposure sensor" b2] obtain em v1 v2 v3 v4 v5 v6
    where x3: "xfers (snd (ov6211_set_exposure (exposure sensor) b2)) =
        xfers b2 @ [Rd OV6211_TVTS_HI, Rd OV6211_TVTS_LO] @ em
          @ [Wr OV6211_AEC_EXPO1 v1, Wr OV6211_AEC_EXPO2 v2, Wr OV6211_AEC_EXPO3 v3,
             Wr OV6211_STROBE_SPAN1 v4, Wr OV6211_STROBE_SPAN2 v5, Wr OV6211_STROBE_SPAN3 v6]"
      and sh: "em = [Rd OV6211_AEC_MANUAL] \<or> (\<exists>w. em = [Rd OV6211_AEC_MANUAL, Wr OV6211_AEC_MANUAL w])"
    by blast
  let ?es = "[Rd OV6211_TVTS_HI, Rd OV6211_TVTS_LO] @ em
          @ [Wr OV6211_AEC_EXPO1 v1, Wr OV6211_AEC_EXPO2 v2, Wr OV6211_AEC_EXPO3 v3,
             Wr OV6211_STROBE_SPAN1 v4, Wr OV6211_STROBE_SPAN2 v5, Wr OV6211_STROBE_SPAN3 v6]"
  have f: "filter is_tvts_write ?es = []"
    using sh by auto
  have x: "xfers (snd (snd (internal_set_stream_tail sensor True b))) =
      xfers b @ Wr OV6211_SC_MODE_SELECT 0 # Usleep 4000 5000 # ?es @ [Wr OV6211_SC_MODE_SELECT 1]"
    using False x2 x3
    by (simp add: internal_set_stream_tail_def Let_def write_reg_xfers b2_def)
  from x f have "xfers (snd (snd (internal_set_stream_tail sensor True b))) =
      xfers b @ Wr OV6211_SC_MODE_SELECT 0 # Usleep 4000 5000 # ?es @ [Wr OV6211_SC_MODE_SELECT 1]
      \<and> filter is_tvts_write ?es = []"
    by (rule conjI)
  then show ?thesis by (rule exI)
qed

lemma set_stream_not_pending:
  "\<not> pending_fi_change sensor \<Longrightarrow>
   internal_set_stream sensor on b = internal_set_stream_tail sensor on b"
  by (simp add: internal_set_stream_def)

lemma set_stream_pending:
  "pending_fi_change sensor \<Longrightarrow> fr_id_timing (cur_fr_id sensor) = Some (hi, lo) \<Longrightarrow>
   internal_set_stream sensor on b =
     internal_set_stream_tail (sensor\<lparr>pending_fi_change := False\<rparr>) on
       (snd (ov6211_write_reg OV6211_TVTS_LO lo (snd (ov6211_write_reg OV6211_TVTS_HI hi b))))"
  by (simp add: internal_set_stream_def Let_def)

lemma fr_id_timing_Some:
  "fr_id \<noteq> OV6211_NUM_FRAMERATES \<Longrightarrow> \<exists>hi lo. fr_id_timing fr_id = Some (hi, lo)"
  by (cases fr_id) simp_all



lemma s_stream_sensor:
  "fst (snd (ov6211_s_stream sensor enable b)) =
     fst (snd (internal_set_stream sensor (enable \<noteq> 0)
       (if enable \<noteq> 0 then snd (ov6211_set_mode sensor b) else b)))"
  by (simp add: ov6211_s_stream_def set_mode_ret split: prod.split)

lemma s_stream_bus:
  "snd (snd (ov6211_s_stream sensor enable b)) =
     snd (snd (internal_set_stream sensor (enable \<noteq> 0)
       (if enable \<noteq> 0 then snd (ov6211_set_mode sensor b) else b)))"
  by (simp add: ov6211_s_stream_def set_mode_ret split: prod.split)

lemma set_stream_on_xfers:
  assumes "pending_fi_change sensor \<longrightarrow> cur_fr_id sensor \<noteq> OV6211_NUM_FRAMERATES"
  shows "\<exists>es. xfers (snd (snd (internal_set_stream sensor True b))) =
      xfers b @ es @ [Wr OV6211_SC_MODE_SELECT 1]"
proof (cases "pending_fi_change sensor")
  case False
  from stream_tail_on_xfers [of sensor b] obtain es
    where "xfers (snd (snd (internal_set_stream_tail sensor True b))) =
       xfers b @ (Wr OV6211_SC_MODE_SELECT 0 # Usleep 4000 5000 # es) @ [Wr OV6211_SC_MODE_SELECT 1]"
    by auto
  then have "xfers (snd (snd (internal_set_stream sensor True b))) =
       xfers b @ (Wr OV6211_SC_MODE_SELECT 0 # Usleep 4000 5000 # es) @ [Wr OV6211_SC_MODE_SELECT 1]"
    using False by (simp add: set_stream_not_pending)
  then show ?thesis by (rule exI)
next
  case True
  then obtain hi lo where t: "fr_id_timing (cur_fr_id sensor) = Some (hi, lo)"
    using assms fr_id_timing_Some by blast
  define b2 where "b2 =
    snd (ov6211_write_reg OV6211_TVTS_LO lo (snd (ov6211_write_reg OV6211_TVTS_HI hi b)))"
  have x2: "xfers b2 = xfers b @ [Wr OV6211_TVTS_HI hi, Wr OV6211_TVTS_LO lo]"
    by (simp add: b2_def write_reg_xfers)
  from stream_tail_on_xfers [of "sensor\<lparr>pending_fi_change := False\<rparr>" b2] obtain es
    where "xfers (snd (snd (internal_set_stream_tail (sensor\<lparr>pending_fi_change := False\<rparr>) True b2))) =
       xfers b2 @ Wr OV6211_SC_MODE_SELECT 0 # Usleep 4000 5000 # es @ [Wr OV6211_SC_MODE_SELECT 1]"
    by auto
  then have "xfers (snd (snd (internal_set_stream sensor True b))) =
       xfers b @ (Wr OV6211_TVTS_HI hi # Wr OV6211_TVTS_LO lo # Wr OV6211_SC_MODE_SELECT 0
         # Usleep 4000 5000 # es) @ [Wr OV6211_SC_MODE_SELECT 1]"
    using True t x2 by (simp add: set_stream_pending [OF True t] b2_def)
  then show ?thesis by (rule exI)
qed




section \<open>Frame interval\<close>

lemma framerate_index_table:
  "framerate_index ov6211_framerates fr =
     (if fr = 10 then 0 else if fr = 15 then 1 else if fr = 30 then 2
      else if fr = 45 then 3 else if fr = 60 then 4 else 5)"
  by (simp add: ov6211_framerates_def)

lemma set_frame_interval_rejects:
  assumes "numerator fi = 0 \<or> denominator fi div numerator fi \<notin> {10, 15, 30, 45, 60}"
  shows "internal_set_frame_interval sensor fi = (- EINVAL, sensor)"
  using assms
  by (auto simp add: internal_set_frame_interval_def Let_def framerate_index_table
      ov6211_framerates_def)

lemma set_frame_interval_accepts:
  assumes "internal_set_frame_interval s0 fi = (0, s)"
  shows "cur_fr_id s \<noteq> OV6211_NUM_FRAMERATES"
  using assms
  by (auto simp add: internal_set_frame_interval_def Let_def framerate_index_table
      ov6211_framerates_def split: if_splits)

section \<open>Transport failures while programming exposure\<close>

text \<open>
  C4, as the code has it. No register access made while programming exposure is
  checked: \<open>ov6211_set_exposure\<close> and the manual-exposure setter
  \<open>ov6211_set_ctrl_exposure\<close> return 0 whatever the transport answers, and the setter
  in manual mode leaves the bus as \<open>ov6211_set_exposure\<close> on the control's value leaves
  it. Whatever fails, \<open>ov6211_set_exposure\<close> issues the two timing reads, the read of
  the manual-exposure-enable register, the three exposure writes and the three
  strobe-span writes, in this order. The write-back of the manual-exposure-enable
  register, with bit 0 set in the byte read, is issued between the read and the exposure
  writes when that read, the third transfer, was acknowledged, and only then.
\<close>

theorem set_exposure_returns_zero_whatever_fails:
  "fst (ov6211_set_exposure expo b) = 0
   \<and> fst (ov6211_set_ctrl_exposure sensor auto_exposure b) = 0
   \<and> (auto_exposure \<noteq> V4L2_EXPOSURE_AUTO \<longrightarrow>
        snd (snd (ov6211_set_ctrl_exposure sensor auto_exposure b)) =
          snd (ov6211_set_exposure (ctrl_exposure_val sensor) b))
   \<and> (\<exists>v1 v2 v3 v4 v5 v6.
        issued b (snd (ov6211_set_exposure expo b)) =
          [Rd OV6211_TVTS_HI, Rd OV6211_TVTS_LO, Rd OV6211_AEC_MANUAL]
          @ (if (case drop 2 (replies b) of [] \<Rightarrow> 0 | r # rs \<Rightarrow> fst r) = 0
             then [Wr OV6211_AEC_MANUAL (1 OR (regs b OV6211_AEC_MANUAL AND NOT 1))] else [])
          @ [Wr OV6211_AEC_EXPO1 v1, Wr OV6211_AEC_EXPO2 v2, Wr OV6211_AEC_EXPO3 v3,
             Wr OV6211_STROBE_SPAN1 v4, Wr OV6211_STROBE_SPAN2 v5, Wr OV6211_STROBE_SPAN3 v6])"
proof -
  from set_exposure_trace [of expo b] obtain v1 v2 v3 v4 v5 v6
    where x: "xfers (snd (ov6211_set_exposure expo b)) =
       xfers b @ ([Rd OV6211_TVTS_HI, Rd OV6211_TVTS_LO, Rd OV6211_AEC_MANUAL]
         @ (if (case drop 2 (replies b) of [] \<Rightarrow> 0 | r # rs \<Rightarrow> fst r) = 0
            then [Wr OV6211_AEC_MANUAL (1 OR (regs b OV6211_AEC_MANUAL AND NOT 1))] else [])
         @ [Wr OV6211_AEC_EXPO1 v1, Wr OV6211_AEC_EXPO2 v2, Wr OV6211_AEC_EXPO3 v3,
            Wr OV6211_STROBE_SPAN1 v4, Wr OV6211_STROBE_SPAN2 v5, Wr OV6211_STROBE_SPAN3 v6])"
    by auto
  have tr: "\<exists>v1 v2 v3 v4 v5 v6.
        issued b (snd (ov6211_set_exposure expo b)) =
          [Rd OV6211_TVTS_HI, Rd OV6211_TVTS_LO, Rd OV6211_AEC_MANUAL]
          @ (if (case drop 2 (replies b) of [] \<Rightarrow> 0 | r # rs \<Rightarrow> fst r) = 0
             then [Wr OV6211_AEC_MANUAL (1 OR (regs b OV6211_AEC_MANUAL AND NOT 1))] else [])
          @ [Wr OV6211_AEC_EXPO1 v1, Wr OV6211_AEC_EXPO2 v2, Wr OV6211_AEC_EXPO3 v3,
             Wr OV6211_STROBE_SPAN1 v4, Wr OV6211_STROBE_SPAN2 v5, Wr OV6211_STROBE_SPAN3 v6]"
    unfolding issued_append [OF x] by blast
  have c0: "fst (ov6211_set_ctrl_exposure sensor auto_exposure b) = 0"
    by (simp add: ov6211_set_ctrl_exposure_def Let_def)
  have cb: "auto_exposure \<noteq> V4L2_EXPOSURE_AUTO \<longrightarrow>
        snd (snd (ov6211_set_ctrl_exposure sensor auto_exposure b)) =
          snd (ov6211_set_exposure (ctrl_exposure_val sensor) b)"
    by (simp add: ov6211_set_ctrl_exposure_def Let_def)
  from set_exposure_ret [of expo b] c0 cb tr show ?thesis
    by (intro conjI)
qed

text \<open>
  A bus that refuses the first three transfers (the two timing reads and the read of the
  manual-exposure-enable register) with \<^verbatim>\<open>-EIO\<close>: the function returns 0, skips the
  write-back and issues the six exposure and strobe writes. On a bus that refuses only
  the first transfer the write-back is issued as well.
\<close>

theorem set_exposure_returns_zero_whatever_fails_witness:
  "fst (ov6211_set_exposure 100
      \<lparr>regs = (\<lambda>a. 0), replies = [(- 5, 0), (- 5, 0), (- 5, 0)], xfers = []\<rparr>) = 0
   \<and> write_addrs (issued \<lparr>regs = (\<lambda>a. 0), replies = [(- 5, 0), (- 5, 0), (- 5, 0)], xfers = []\<rparr>
        (snd (ov6211_set_exposure 100
          \<lparr>regs = (\<lambda>a. 0), replies = [(- 5, 0), (- 5, 0), (- 5, 0)], xfers = []\<rparr>))) =
       [OV6211_AEC_EXPO1, OV6211_AEC_EXPO2, OV6211_AEC_EXPO3,
        OV6211_STROBE_SPAN1, OV6211_STROBE_SPAN2, OV6211_STROBE_SPAN3]
   \<and> write_addrs (issued \<lparr>regs = (\<lambda>a. 0), replies = [(- 5, 0)], xfers = []\<rparr>
        (snd (ov6211_set_exposure 100
          \<lparr>regs = (\<lambda>a. 0), replies = [(- 5, 0)], xfers = []\<rparr>))) =
       [OV6211_AEC_MANUAL, OV6211_AEC_EXPO1, OV6211_AEC_EXPO2, OV6211_AEC_EXPO3,
        OV6211_STROBE_SPAN1, OV6211_STROBE_SPAN2, OV6211_STROBE_SPAN3]"
proof -
  let ?b = "\<lparr>regs = (\<lambda>a. 0), replies = [(- 5, 0), (- 5, 0), (- 5, 0)], xfers = []\<rparr>"
  let ?c = "\<lparr>regs = (\<lambda>a. 0), replies = [(- 5, 0)], xfers = []\<rparr>"
  note tb = set_exposure_returns_zero_whatever_fails [of 100 ?b ov6211_probe_state 1]
  note tc = set_exposure_returns_zero_whatever_fails [of 100 ?c ov6211_probe_state 1]
  have r: "fst (ov6211_set_exposure 100 ?b) = 0"
    using tb by (rule conjunct1)
  from tb obtain v1 v2 v3 v4 v5 v6 where "issued ?b (snd (ov6211_set_exposure 100 ?b)) =
      [Rd OV6211_TVTS_HI, Rd OV6211_TVTS_LO, Rd OV6211_AEC_MANUAL,
       Wr OV6211_AEC_EXPO1 v1, Wr OV6211_AEC_EXPO2 v2, Wr OV6211_AEC_EXPO3 v3,
       Wr OV6211_STROBE_SPAN1 v4, Wr OV6211_STROBE_SPAN2 v5, Wr OV6211_STROBE_SPAN3 v6]"
    by auto
  then have wb: "write_addrs (issued ?b (snd (ov6211_set_exposure 100 ?b))) =
       [OV6211_AEC_EXPO1, OV6211_AEC_EXPO2, OV6211_AEC_EXPO3,
        OV6211_STROBE_SPAN1, OV6211_STROBE_SPAN2, OV6211_STROBE_SPAN3]"
    by simp
  from tc obtain w1 w2 w3 w4 w5 w6 where "issued ?c (snd (ov6211_set_exposure 100 ?c)) =
      [Rd OV6211_TVTS_HI, Rd OV6211_TVTS_LO, Rd OV6211_AEC_MANUAL, Wr OV6211_AEC_MANUAL 1,
       Wr OV6211_AEC_EXPO1 w1, Wr OV6211_AEC_EXPO2 w2, Wr OV6211_AEC_EXPO3 w3,
       Wr OV6211_STROBE_SPAN1 w4, Wr OV6211_STROBE_SPAN2 w5, Wr OV6211_STROBE_SPAN3 w6]"
    by auto
  then have wc: "write_addrs (issued ?c (snd (ov6211_set_exposure 100 ?c))) =
       [OV6211_AEC_MANUAL, OV6211_AEC_EXPO1, OV6211_AEC_EXPO2, OV6211_AEC_EXPO3,
        OV6211_STROBE_SPAN1, OV6211_STROBE_SPAN2, OV6211_STROBE_SPAN3]"
    by simp
  from r wb wc show ?thesis
    by (intro conjI)
qed

text \<open>
  C4 as stated fails: on a bus whose first transfer, the read of the timing high
  byte, fails with \<^verbatim>\<open>-EIO\<close>, both functions return 0 and not \<open>-5\<close>.
\<close>

theorem set_exposure_error_propagation_counterexample:
  "fst (fst (ov6211_read_reg OV6211_TVTS_HI
      \<lparr>regs = (\<lambda>a. 0)(0x380e := 0x03, 0x380f := 0x6c), replies = [(- 5, 0)], xfers = []\<rparr>)) = - 5
   \<and> fst (ov6211_set_exposure 100
      \<lparr>regs = (\<lambda>a. 0)(0x380e := 0x03, 0x380f := 0x6c), replies = [(- 5, 0)], xfers = []\<rparr>) = 0
   \<and> fst (ov6211_set_ctrl_exposure (ov6211_probe_state\<lparr>ctrl_exposure_val := 100\<rparr>)
      V4L2_EXPOSURE_MANUAL
      \<lparr>regs = (\<lambda>a. 0)(0x380e := 0x03, 0x380f := 0x6c), replies = [(- 5, 0)], xfers = []\<rparr>) = 0"
  by (simp add: set_exposure_ret ov6211_set_ctrl_exposure_def Let_def ov6211_read_reg_def
      regmap_read_def next_reply_def emit_def)

section \<open>Transport failures while starting to stream\<close>




section \<open>A pending frame-rate change across stop and start\<close>

lemma stop_with_pending:
  assumes "pending_fi_change s" and "fr_id_timing (cur_fr_id s) = Some (hi, lo)"
  shows "fst (snd (ov6211_s_stream s 0 b)) = s\<lparr>pending_fi_change := False, streaming := False\<rparr>"
    and "xfers (snd (snd (ov6211_s_stream s 0 b))) =
      xfers b @ [Wr OV6211_TVTS_HI hi, Wr OV6211_TVTS_LO lo, Wr OV6211_SC_MODE_SELECT 0]"
    and "replies b = [] \<Longrightarrow> replies (snd (snd (ov6211_s_stream s 0 b))) = []"
proof -
  define bw where "bw =
    snd (ov6211_write_reg OV6211_TVTS_LO lo (snd (ov6211_write_reg OV6211_TVTS_HI hi b)))"
  have xw: "xfers bw = xfers b @ [Wr OV6211_TVTS_HI hi, Wr OV6211_TVTS_LO lo]"
    by (simp add: bw_def write_reg_xfers)
  have stop: "internal_set_stream s False b =
      internal_set_stream_tail (s\<lparr>pending_fi_change := False\<rparr>) False bw"
    unfolding bw_def by (rule set_stream_pending [OF assms])
  show "fst (snd (ov6211_s_stream s 0 b)) = s\<lparr>pending_fi_change := False, streaming := False\<rparr>"
    by (simp add: s_stream_sensor stop stream_tail_sensor)
  show "xfers (snd (snd (ov6211_s_stream s 0 b))) =
      xfers b @ [Wr OV6211_TVTS_HI hi, Wr OV6211_TVTS_LO lo, Wr OV6211_SC_MODE_SELECT 0]"
    by (simp add: s_stream_bus stop stream_tail_off_xfers xw)
  show "replies (snd (snd (ov6211_s_stream s 0 b))) = []" if "replies b = []"
    using that
    by (simp add: s_stream_bus stop bw_def internal_set_stream_tail_def Let_def write_reg_quiet)
qed

lemma start_not_pending:
  assumes "\<not> pending_fi_change s1"
  shows "fst (snd (ov6211_s_stream s1 1 b1)) = s1\<lparr>streaming := True\<rparr>"
    and "filter is_tvts_write (issued b1 (snd (snd (ov6211_s_stream s1 1 b1)))) =
      filter is_tvts_write (issued b1 (snd (ov6211_set_mode s1 b1)))"
proof -
  define bm where "bm = snd (ov6211_set_mode s1 b1)"
  define b2 where "b2 = snd (snd (ov6211_s_stream s1 1 b1))"
  show "fst (snd (ov6211_s_stream s1 1 b1)) = s1\<lparr>streaming := True\<rparr>"
    by (simp add: s_stream_sensor set_stream_not_pending [OF assms] stream_tail_sensor)
  have b2: "b2 = snd (snd (internal_set_stream_tail s1 True bm))"
    by (simp add: b2_def s_stream_bus set_stream_not_pending [OF assms] bm_def)
  obtain em where em: "xfers bm = xfers b1 @ em"
    using set_mode_xfers [of s1 b1] by (auto simp add: bm_def)
  obtain es where es: "xfers b2 = xfers bm
      @ Wr OV6211_SC_MODE_SELECT 0 # Usleep 4000 5000 # es @ [Wr OV6211_SC_MODE_SELECT 1]"
    and quiet: "filter is_tvts_write es = []"
    using stream_tail_on_xfers [of s1 bm] by (auto simp add: b2)
  have "issued b1 b2 =
      em @ Wr OV6211_SC_MODE_SELECT 0 # Usleep 4000 5000 # es @ [Wr OV6211_SC_MODE_SELECT 1]"
    using em es by (simp add: issued_def)
  then have f2: "filter is_tvts_write (issued b1 b2) = filter is_tvts_write em"
    using quiet by simp
  have "issued b1 bm = em"
    using em by (rule issued_append)
  then show "filter is_tvts_write (issued b1 (snd (snd (ov6211_s_stream s1 1 b1)))) =
      filter is_tvts_write (issued b1 (snd (ov6211_set_mode s1 b1)))"
    using f2 by (simp add: b2_def bm_def)
qed

lemma probe_mode_script_tvts_writes:
  "replies b = [] \<Longrightarrow>
   filter is_tvts_write (issued b (snd (ov6211_load_regs (ov6211_mode_data ! 0) b))) =
     [Wr OV6211_TVTS_HI 0x0d, Wr OV6211_TVTS_LO 0xb0]"
  by (simp add: ov6211_load_regs_def ov6211_mode_data_def ov6211_init_y8_400_200_def
      load_regs_access_def write_reg_quiet issued_def)

lemma probe_mode_set_mode_tvts_writes:
  assumes "replies b = []" and "cur_mode s = ov6211_mode_data ! 0"
  shows "filter is_tvts_write (issued b (snd (ov6211_set_mode s b))) =
     [Wr OV6211_TVTS_HI 0x0d, Wr OV6211_TVTS_LO 0xb0]"
proof -
  define br where "br = ov6211_soft_reset b"
  define bm where "bm = snd (ov6211_load_regs (ov6211_mode_data ! 0) br)"
  have q: "replies br = []"
    using assms(1) by (simp add: br_def soft_reset_replies)
  obtain ret where run: "load_regs_loop
      (take (unat (reg_data_size (ov6211_mode_data ! 0))) (reg_data (ov6211_mode_data ! 0))) br
      = (ret, bm)"
    by (simp add: bm_def ov6211_load_regs_def) (metis prod.collapse)
  from load_regs_loop_xfers [OF run] obtain es where es: "xfers bm = xfers br @ es"
    by blast
  have "issued br bm = es"
    using es by (rule issued_append)
  then have t: "filter is_tvts_write es = [Wr OV6211_TVTS_HI 0x0d, Wr OV6211_TVTS_LO 0xb0]"
    using probe_mode_script_tvts_writes [OF q] by (simp add: bm_def)
  have "xfers bm = xfers b @ ([Wr OV6211_SC_SOFTWARE_RESET 1, Usleep 5000 9000,
      Wr OV6211_SC_SOFTWARE_RESET 0] @ es)"
    using es by (simp add: br_def soft_reset_xfers)
  then have "issued b bm = [Wr OV6211_SC_SOFTWARE_RESET 1, Usleep 5000 9000,
      Wr OV6211_SC_SOFTWARE_RESET 0] @ es"
    by (rule issued_append)
  moreover have "snd (ov6211_set_mode s b) = bm"
    by (simp add: ov6211_set_mode_def Let_def assms(2) bm_def br_def)
  ultimately show ?thesis
    using t by simp
qed

lemma start_pending:
  assumes "pending_fi_change s" and "fr_id_timing (cur_fr_id s) = Some (hi, lo)"
  shows "fst (snd (ov6211_s_stream s 1 b1)) = s\<lparr>pending_fi_change := False, streaming := True\<rparr>"
    and "filter is_tvts_write (issued b1 (snd (snd (ov6211_s_stream s 1 b1)))) =
      filter is_tvts_write (issued b1 (snd (ov6211_set_mode s b1)))
        @ [Wr OV6211_TVTS_HI hi, Wr OV6211_TVTS_LO lo]"
proof -
  define bm where "bm = snd (ov6211_set_mode s b1)"
  define bw where "bw =
    snd (ov6211_write_reg OV6211_TVTS_LO lo (snd (ov6211_write_reg OV6211_TVTS_HI hi bm)))"
  define b2 where "b2 = snd (snd (ov6211_s_stream s 1 b1))"
  have start: "internal_set_stream s True bm =
      internal_set_stream_tail (s\<lparr>pending_fi_change := False\<rparr>) True bw"
    unfolding bw_def by (rule set_stream_pending [OF assms])
  show "fst (snd (ov6211_s_stream s 1 b1)) =
      s\<lparr>pending_fi_change := False, streaming := True\<rparr>"
    by (simp add: s_stream_sensor start [unfolded bm_def] stream_tail_sensor)
  have b2: "b2 = snd (snd (internal_set_stream_tail (s\<lparr>pending_fi_change := False\<rparr>) True bw))"
    by (simp add: b2_def s_stream_bus start [unfolded bm_def] bm_def)
  obtain em where em: "xfers bm = xfers b1 @ em"
    using set_mode_xfers [of s b1] by (auto simp add: bm_def)
  have xw: "xfers bw = xfers bm @ [Wr OV6211_TVTS_HI hi, Wr OV6211_TVTS_LO lo]"
    by (simp add: bw_def write_reg_xfers)
  obtain es where es: "xfers b2 = xfers bw
      @ Wr OV6211_SC_MODE_SELECT 0 # Usleep 4000 5000 # es @ [Wr OV6211_SC_MODE_SELECT 1]"
    and quiet: "filter is_tvts_write es = []"
    using stream_tail_on_xfers [of "s\<lparr>pending_fi_change := False\<rparr>" bw] by (auto simp add: b2)
  have "issued b1 b2 = em @ [Wr OV6211_TVTS_HI hi, Wr OV6211_TVTS_LO lo]
      @ Wr OV6211_SC_MODE_SELECT 0 # Usleep 4000 5000 # es @ [Wr OV6211_SC_MODE_SELECT 1]"
    using em xw es by (simp add: issued_def)
  then have f2: "filter is_tvts_write (issued b1 b2) =
      filter is_tvts_write em @ [Wr OV6211_TVTS_HI hi, Wr OV6211_TVTS_LO lo]"
    using quiet by simp
  have "issued b1 bm = em"
    using em by (rule issued_append)
  then show "filter is_tvts_write (issued b1 (snd (snd (ov6211_s_stream s 1 b1)))) =
      filter is_tvts_write (issued b1 (snd (ov6211_set_mode s b1)))
        @ [Wr OV6211_TVTS_HI hi, Wr OV6211_TVTS_LO lo]"
    using f2 by (simp add: b2_def bm_def)
qed

text \<open>
  \<open>internal_set_stream\<close> applies a pending frame-rate change whether it is asked to
  start or to stop: after a successful \<open>ov6211_s_frame_interval\<close> the next call that
  stops streaming writes the pair of the frame-rate id once and clears the pending flag,
  and the start that follows issues only the timing writes of \<open>ov6211_set_mode\<close>.
\<close>

lemma stop_applies_pending_frame_rate:
  assumes "ov6211_s_frame_interval s0 fi = (0, s)"
    and "ov6211_s_stream s 0 b = (r1, s1, b1)"
    and "ov6211_s_stream s1 1 b1 = (r2, s2, b2)"
  shows "\<exists>hi lo. fr_id_timing (cur_fr_id s) = Some (hi, lo)
    \<and> pending_fi_change s
    \<and> issued b b1 = [Wr OV6211_TVTS_HI hi, Wr OV6211_TVTS_LO lo, Wr OV6211_SC_MODE_SELECT 0]
    \<and> \<not> streaming s1 \<and> \<not> pending_fi_change s1
    \<and> filter is_tvts_write (issued b1 b2) =
        filter is_tvts_write (issued b1 (snd (ov6211_set_mode s1 b1)))
    \<and> streaming s2"
proof -
  obtain sa where sa: "internal_set_frame_interval s0 fi = (0, sa)"
    and s: "s = sa\<lparr>pending_fi_change := True\<rparr>"
    using assms(1) by (auto simp add: ov6211_s_frame_interval_def split: prod.splits)
  have pend: "pending_fi_change s"
    by (simp add: s)
  have "cur_fr_id s \<noteq> OV6211_NUM_FRAMERATES"
    using set_frame_interval_accepts [OF sa] by (simp add: s)
  then obtain hi lo where t: "fr_id_timing (cur_fr_id s) = Some (hi, lo)"
    using fr_id_timing_Some by blast
  have s1: "s1 = s\<lparr>pending_fi_change := False, streaming := False\<rparr>"
    using stop_with_pending(1) [OF pend t, of b] assms(2) by simp
  have "xfers b1 =
      xfers b @ [Wr OV6211_TVTS_HI hi, Wr OV6211_TVTS_LO lo, Wr OV6211_SC_MODE_SELECT 0]"
    using stop_with_pending(2) [OF pend t, of b] assms(2) by simp
  then have i1: "issued b b1 =
      [Wr OV6211_TVTS_HI hi, Wr OV6211_TVTS_LO lo, Wr OV6211_SC_MODE_SELECT 0]"
    by (rule issued_append)
  have np: "\<not> pending_fi_change s1"
    by (simp add: s1)
  have s2: "s2 = s1\<lparr>streaming := True\<rparr>"
    using start_not_pending(1) [OF np, of b1] assms(3) by simp
  have f3: "filter is_tvts_write (issued b1 b2) =
      filter is_tvts_write (issued b1 (snd (ov6211_set_mode s1 b1)))"
    using start_not_pending(2) [OF np, of b1] assms(3) by simp
  have "fr_id_timing (cur_fr_id s) = Some (hi, lo)
    \<and> pending_fi_change s
    \<and> issued b b1 = [Wr OV6211_TVTS_HI hi, Wr OV6211_TVTS_LO lo, Wr OV6211_SC_MODE_SELECT 0]
    \<and> \<not> streaming s1 \<and> \<not> pending_fi_change s1
    \<and> filter is_tvts_write (issued b1 b2) =
        filter is_tvts_write (issued b1 (snd (ov6211_set_mode s1 b1)))
    \<and> streaming s2"
    using t pend i1 f3 by (simp add: s1 s2)
  then show ?thesis by blast
qed

text \<open>
  C2. The scenario of the specification, run on the code: the probe state, streaming, is
  asked for 30 frames a second on a bus that acknowledges everything, which sets the
  pending flag. The stop that follows writes the pair \<open>0x06\<close>, \<open>0xD8\<close> to the
  timing registers before the stream-off write and clears the flag. The start that
  follows resets the device and writes the timing registers once each, with the mode
  script's \<open>0x0D\<close> and \<open>0xB0\<close>, and never with the requested pair; it ends streaming
  with the 30 frames a second id current and nothing pending. The same request made in
  the probe state while idle is served by the next start after the script: the timing
  registers are written with \<open>0x0D\<close>, \<open>0xB0\<close> and then with \<open>0x06\<close>, \<open>0xD8\<close>.
\<close>

theorem pending_frame_rate_lost_across_stop_and_start:
  "let fi = \<lparr>numerator = 1, denominator = 30\<rparr>;
       s = snd (ov6211_s_frame_interval (ov6211_probe_state\<lparr>streaming := True\<rparr>) fi);
       b = quiet_bus (\<lambda>a. 0);
       stop = ov6211_s_stream s 0 b;
       start = ov6211_s_stream (fst (snd stop)) 1 (snd (snd stop));
       idle = snd (ov6211_s_frame_interval ov6211_probe_state fi);
       idle_start = ov6211_s_stream idle 1 b
   in fr_id_timing (cur_fr_id s) = Some (0x06, 0xd8)
      \<and> pending_fi_change s
      \<and> issued b (snd (snd stop)) =
          [Wr OV6211_TVTS_HI 0x06, Wr OV6211_TVTS_LO 0xd8, Wr OV6211_SC_MODE_SELECT 0]
      \<and> \<not> pending_fi_change (fst (snd stop))
      \<and> filter is_tvts_write (issued (snd (snd stop)) (snd (snd start))) =
          [Wr OV6211_TVTS_HI 0x0d, Wr OV6211_TVTS_LO 0xb0]
      \<and> cur_fr_id (fst (snd start)) = OV6211_30_FPS
      \<and> \<not> pending_fi_change (fst (snd start))
      \<and> streaming (fst (snd start))
      \<and> pending_fi_change idle
      \<and> filter is_tvts_write (issued b (snd (snd idle_start))) =
          [Wr OV6211_TVTS_HI 0x0d, Wr OV6211_TVTS_LO 0xb0,
           Wr OV6211_TVTS_HI 0x06, Wr OV6211_TVTS_LO 0xd8]"
proof -
  define fi :: v4l2_fract where "fi = \<lparr>numerator = 1, denominator = 30\<rparr>"
  define s where "s = snd (ov6211_s_frame_interval (ov6211_probe_state\<lparr>streaming := True\<rparr>) fi)"
  define b where "b = quiet_bus (\<lambda>a. 0)"
  define s1 where "s1 = fst (snd (ov6211_s_stream s 0 b))"
  define b1 where "b1 = snd (snd (ov6211_s_stream s 0 b))"
  define s2 where "s2 = fst (snd (ov6211_s_stream s1 1 b1))"
  define b2 where "b2 = snd (snd (ov6211_s_stream s1 1 b1))"
  define idle where "idle = snd (ov6211_s_frame_interval ov6211_probe_state fi)"
  define b3 where "b3 = snd (snd (ov6211_s_stream idle 1 b))"
  have sv: "s = ov6211_probe_state\<lparr>streaming := True, cur_fr_id := OV6211_30_FPS,
      frame_interval := fi, pending_fi_change := True\<rparr>"
    by (simp add: s_def fi_def ov6211_s_frame_interval_def internal_set_frame_interval_def
        Let_def framerate_index_table ov6211_framerates_def ov6211_probe_state_def)
  have iv: "idle = ov6211_probe_state\<lparr>cur_fr_id := OV6211_30_FPS,
      frame_interval := fi, pending_fi_change := True\<rparr>"
    by (simp add: idle_def fi_def ov6211_s_frame_interval_def internal_set_frame_interval_def
        Let_def framerate_index_table ov6211_framerates_def ov6211_probe_state_def)
  have pend: "pending_fi_change s" and t: "fr_id_timing (cur_fr_id s) = Some (0x06, 0xd8)"
    and mode: "cur_mode s = ov6211_mode_data ! 0"
    by (simp_all add: sv ov6211_probe_state_def)
  have ipend: "pending_fi_change idle"
    and it: "fr_id_timing (cur_fr_id idle) = Some (0x06, 0xd8)"
    and imode: "cur_mode idle = ov6211_mode_data ! 0"
    by (simp_all add: iv ov6211_probe_state_def)
  have q: "replies b = []"
    by (simp add: b_def quiet_bus_def)
  have s1v: "s1 = s\<lparr>pending_fi_change := False, streaming := False\<rparr>"
    unfolding s1_def by (rule stop_with_pending(1) [OF pend t])
  have "xfers b1 = xfers b
      @ [Wr OV6211_TVTS_HI 0x06, Wr OV6211_TVTS_LO 0xd8, Wr OV6211_SC_MODE_SELECT 0]"
    unfolding b1_def by (rule stop_with_pending(2) [OF pend t])
  then have i1: "issued b b1 =
      [Wr OV6211_TVTS_HI 0x06, Wr OV6211_TVTS_LO 0xd8, Wr OV6211_SC_MODE_SELECT 0]"
    by (rule issued_append)
  have q1: "replies b1 = []"
    unfolding b1_def by (rule stop_with_pending(3) [OF pend t q])
  have np: "\<not> pending_fi_change s1" and mode1: "cur_mode s1 = ov6211_mode_data ! 0"
    by (simp_all add: s1v mode)
  have w2: "filter is_tvts_write (issued b1 b2) =
      [Wr OV6211_TVTS_HI 0x0d, Wr OV6211_TVTS_LO 0xb0]"
    unfolding b2_def
    by (simp only: start_not_pending(2) [OF np] probe_mode_set_mode_tvts_writes [OF q1 mode1])
  have s2v: "s2 = s1\<lparr>streaming := True\<rparr>"
    unfolding s2_def by (rule start_not_pending(1) [OF np])
  have fin: "cur_fr_id s2 = OV6211_30_FPS" "\<not> pending_fi_change s2" "streaming s2"
    by (simp_all add: s2v s1v sv)
  have w3: "filter is_tvts_write (issued b b3) =
      [Wr OV6211_TVTS_HI 0x0d, Wr OV6211_TVTS_LO 0xb0,
       Wr OV6211_TVTS_HI 0x06, Wr OV6211_TVTS_LO 0xd8]"
    unfolding b3_def
    by (simp only: start_pending(2) [OF ipend it] probe_mode_set_mode_tvts_writes [OF q imode])
      simp
  show ?thesis
    using t pend i1 np w2 fin ipend w3
    by (simp only: Let_def fi_def [symmetric] s_def [symmetric] b_def [symmetric]
        s1_def [symmetric] b1_def [symmetric] s2_def [symmetric] b2_def [symmetric]
        idle_def [symmetric] b3_def [symmetric]) simp
qed

section \<open>An unsupported frame interval\<close>

text \<open>
  C3, as the code has it. When the numerator is 0, or the quotient denominator div
  numerator (unsigned, truncating) is none of 10, 15, 30, 45 and 60,
  \<open>ov6211_s_frame_interval\<close> returns \<^verbatim>\<open>-EINVAL\<close> and leaves the frame-rate id,
  the frame interval and every other field as they were, except the pending flag, which
  it sets.
\<close>

theorem s_frame_interval_unsupported_sets_pending:
  assumes "numerator fi = 0 \<or> denominator fi div numerator fi \<notin> {10, 15, 30, 45, 60}"
  shows "ov6211_s_frame_interval sensor fi = (- EINVAL, sensor\<lparr>pending_fi_change := True\<rparr>)"
  by (simp add: ov6211_s_frame_interval_def set_frame_interval_rejects [OF assms])

theorem s_frame_interval_unsupported_sets_pending_witness:
  "ov6211_s_frame_interval ov6211_probe_state \<lparr>numerator = 1, denominator = 7\<rparr>
     = (- 22, ov6211_probe_state\<lparr>pending_fi_change := True\<rparr>)
   \<and> ov6211_s_frame_interval ov6211_probe_state \<lparr>numerator = 0, denominator = 30\<rparr>
     = (- 22, ov6211_probe_state\<lparr>pending_fi_change := True\<rparr>)"
proof -
  have a: "numerator \<lparr>numerator = 1, denominator = 7\<rparr> = 0
      \<or> denominator \<lparr>numerator = 1, denominator = 7\<rparr>
           div numerator \<lparr>numerator = 1, denominator = 7\<rparr> \<notin> {10, 15, 30, 45, 60 :: u32}"
    by simp
  have c: "numerator \<lparr>numerator = 0, denominator = 30\<rparr> = 0
      \<or> denominator \<lparr>numerator = 0, denominator = 30\<rparr>
           div numerator \<lparr>numerator = 0, denominator = 30\<rparr> \<notin> {10, 15, 30, 45, 60 :: u32}"
    by simp
  from s_frame_interval_unsupported_sets_pending [OF a, of ov6211_probe_state]
    s_frame_interval_unsupported_sets_pending [OF c, of ov6211_probe_state]
  show ?thesis by simp
qed

text \<open>
  C3 as stated fails: the probe state has no frame-rate change pending; after the
  rejected interval 1/7 it has one.
\<close>

theorem s_frame_interval_state_unchanged_counterexample:
  "fst (ov6211_s_frame_interval ov6211_probe_state \<lparr>numerator = 1, denominator = 7\<rparr>) = - 22
   \<and> \<not> pending_fi_change ov6211_probe_state
   \<and> pending_fi_change
        (snd (ov6211_s_frame_interval ov6211_probe_state \<lparr>numerator = 1, denominator = 7\<rparr>))"
  by (simp add: ov6211_s_frame_interval_def internal_set_frame_interval_def Let_def
      framerate_index_table ov6211_framerates_def ov6211_probe_state_def)

section \<open>Frame rates and their timing bytes\<close>

lemma stream_tail_extends:
  "\<exists>es. xfers (snd (snd (internal_set_stream_tail sensor on b))) = xfers b @ es"
proof (cases on)
  case True
  then show ?thesis
    using stream_tail_on_xfers [of sensor b] by auto
next
  case False
  then show ?thesis
    using stream_tail_off_xfers [of sensor b] by auto
qed

lemma set_stream_pending_writes:
  assumes "pending_fi_change sensor" and "fr_id_timing (cur_fr_id sensor) = Some (hi, lo)"
  shows "take 2 (issued b (snd (snd (internal_set_stream sensor on b)))) =
     [Wr OV6211_TVTS_HI hi, Wr OV6211_TVTS_LO lo]"
proof -
  define bw where "bw =
    snd (ov6211_write_reg OV6211_TVTS_LO lo (snd (ov6211_write_reg OV6211_TVTS_HI hi b)))"
  have xw: "xfers bw = xfers b @ [Wr OV6211_TVTS_HI hi, Wr OV6211_TVTS_LO lo]"
    by (simp add: bw_def write_reg_xfers)
  obtain es where "xfers (snd (snd (internal_set_stream_tail
      (sensor\<lparr>pending_fi_change := False\<rparr>) on bw))) = xfers bw @ es"
    using stream_tail_extends by blast
  then have "xfers (snd (snd (internal_set_stream sensor on b))) =
      xfers b @ ([Wr OV6211_TVTS_HI hi, Wr OV6211_TVTS_LO lo] @ es)"
    using xw by (simp add: set_stream_pending [OF assms] bw_def)
  then have "issued b (snd (snd (internal_set_stream sensor on b))) =
      [Wr OV6211_TVTS_HI hi, Wr OV6211_TVTS_LO lo] @ es"
    by (rule issued_append)
  then show ?thesis by simp
qed

lemma s_frame_interval_accepts:
  assumes "numerator fi \<noteq> 0" and "denominator fi div numerator fi \<in> {10, 15, 30, 45, 60}"
  shows "fst (internal_set_frame_interval sensor fi) = 0"
    and "frame_interval (snd (internal_set_frame_interval sensor fi)) = fi"
    and "cur_fr_id (snd (internal_set_frame_interval sensor fi)) =
            (if denominator fi div numerator fi = 10 then OV6211_10_FPS
             else if denominator fi div numerator fi = 15 then OV6211_15_FPS
             else if denominator fi div numerator fi = 30 then OV6211_30_FPS
             else if denominator fi div numerator fi = 45 then OV6211_45_FPS
             else OV6211_60_FPS)"
    and "pending_fi_change (snd (ov6211_s_frame_interval sensor fi))"
    and "cur_fr_id (snd (ov6211_s_frame_interval sensor fi)) =
           cur_fr_id (snd (internal_set_frame_interval sensor fi))"
  using assms
  by (auto simp add: ov6211_s_frame_interval_def internal_set_frame_interval_def Let_def
      framerate_index_table ov6211_framerates_def split: prod.split)

text \<open>
  C9, as the code has it. The mapping from a frame-rate id to its timing bytes is the
  switch of \<open>internal_set_stream\<close>: with a change pending it first writes the fixed pair
  of the current id to the two timing registers, \<open>(0x06, 0xD8)\<close> for 30 frames a
  second, and for the sixth enumerator it returns \<^verbatim>\<open>-EINVAL\<close> without touching the
  bus. The id is chosen by \<open>internal_set_frame_interval\<close> from the truncated unsigned
  quotient denominator div numerator: when the numerator is not 0 and the quotient is one
  of 10, 15, 30, 45 and 60 it returns 0 and selects that rate's id, so that the pair
  written next is that rate's; when the numerator is 0 or the quotient is any other
  value, and so whenever the denominator is 0, it returns \<^verbatim>\<open>-EINVAL\<close> and selects
  nothing.
\<close>

theorem frame_rate_mapping:
  "(pending_fi_change sensor \<and> cur_fr_id sensor = OV6211_10_FPS \<longrightarrow>
      take 2 (issued b (snd (snd (internal_set_stream sensor on b)))) =
        [Wr OV6211_TVTS_HI 0x14, Wr OV6211_TVTS_LO 0x88])
   \<and> (pending_fi_change sensor \<and> cur_fr_id sensor = OV6211_15_FPS \<longrightarrow>
      take 2 (issued b (snd (snd (internal_set_stream sensor on b)))) =
        [Wr OV6211_TVTS_HI 0x0d, Wr OV6211_TVTS_LO 0xb0])
   \<and> (pending_fi_change sensor \<and> cur_fr_id sensor = OV6211_30_FPS \<longrightarrow>
      take 2 (issued b (snd (snd (internal_set_stream sensor on b)))) =
        [Wr OV6211_TVTS_HI 0x06, Wr OV6211_TVTS_LO 0xd8])
   \<and> (pending_fi_change sensor \<and> cur_fr_id sensor = OV6211_45_FPS \<longrightarrow>
      take 2 (issued b (snd (snd (internal_set_stream sensor on b)))) =
        [Wr OV6211_TVTS_HI 0x04, Wr OV6211_TVTS_LO 0x90])
   \<and> (pending_fi_change sensor \<and> cur_fr_id sensor = OV6211_60_FPS \<longrightarrow>
      take 2 (issued b (snd (snd (internal_set_stream sensor on b)))) =
        [Wr OV6211_TVTS_HI 0x03, Wr OV6211_TVTS_LO 0x6c])
   \<and> (pending_fi_change sensor \<and> cur_fr_id sensor = OV6211_NUM_FRAMERATES \<longrightarrow>
        internal_set_stream sensor on b = (- EINVAL, sensor, b))
   \<and> (numerator fi \<noteq> 0 \<and> denominator fi div numerator fi \<in> {10, 15, 30, 45, 60} \<longrightarrow>
        fst (internal_set_frame_interval sensor fi) = 0
        \<and> frame_interval (snd (internal_set_frame_interval sensor fi)) = fi
        \<and> cur_fr_id (snd (internal_set_frame_interval sensor fi)) =
            (if denominator fi div numerator fi = 10 then OV6211_10_FPS
             else if denominator fi div numerator fi = 15 then OV6211_15_FPS
             else if denominator fi div numerator fi = 30 then OV6211_30_FPS
             else if denominator fi div numerator fi = 45 then OV6211_45_FPS
             else OV6211_60_FPS)
        \<and> take 2 (issued b (snd (snd (internal_set_stream
              (snd (ov6211_s_frame_interval sensor fi)) on b)))) =
            (if denominator fi div numerator fi = 10
               then [Wr OV6211_TVTS_HI 0x14, Wr OV6211_TVTS_LO 0x88]
             else if denominator fi div numerator fi = 15
               then [Wr OV6211_TVTS_HI 0x0d, Wr OV6211_TVTS_LO 0xb0]
             else if denominator fi div numerator fi = 30
               then [Wr OV6211_TVTS_HI 0x06, Wr OV6211_TVTS_LO 0xd8]
             else if denominator fi div numerator fi = 45
               then [Wr OV6211_TVTS_HI 0x04, Wr OV6211_TVTS_LO 0x90]
             else [Wr OV6211_TVTS_HI 0x03, Wr OV6211_TVTS_LO 0x6c]))
   \<and> (numerator fi = 0 \<or> denominator fi div numerator fi \<notin> {10, 15, 30, 45, 60} \<longrightarrow>
        internal_set_frame_interval sensor fi = (- EINVAL, sensor))
   \<and> (denominator fi = 0 \<longrightarrow> internal_set_frame_interval sensor fi = (- EINVAL, sensor))"
proof -
  have w10: "pending_fi_change sensor \<and> cur_fr_id sensor = OV6211_10_FPS \<longrightarrow>
      take 2 (issued b (snd (snd (internal_set_stream sensor on b)))) =
        [Wr OV6211_TVTS_HI 0x14, Wr OV6211_TVTS_LO 0x88]"
    using set_stream_pending_writes [of sensor "0x14" "0x88" b on] by simp
  have w15: "pending_fi_change sensor \<and> cur_fr_id sensor = OV6211_15_FPS \<longrightarrow>
      take 2 (issued b (snd (snd (internal_set_stream sensor on b)))) =
        [Wr OV6211_TVTS_HI 0x0d, Wr OV6211_TVTS_LO 0xb0]"
    using set_stream_pending_writes [of sensor "0x0d" "0xb0" b on] by simp
  have w30: "pending_fi_change sensor \<and> cur_fr_id sensor = OV6211_30_FPS \<longrightarrow>
      take 2 (issued b (snd (snd (internal_set_stream sensor on b)))) =
        [Wr OV6211_TVTS_HI 0x06, Wr OV6211_TVTS_LO 0xd8]"
    using set_stream_pending_writes [of sensor "0x06" "0xd8" b on] by simp
  have w45: "pending_fi_change sensor \<and> cur_fr_id sensor = OV6211_45_FPS \<longrightarrow>
      take 2 (issued b (snd (snd (internal_set_stream sensor on b)))) =
        [Wr OV6211_TVTS_HI 0x04, Wr OV6211_TVTS_LO 0x90]"
    using set_stream_pending_writes [of sensor "0x04" "0x90" b on] by simp
  have w60: "pending_fi_change sensor \<and> cur_fr_id sensor = OV6211_60_FPS \<longrightarrow>
      take 2 (issued b (snd (snd (internal_set_stream sensor on b)))) =
        [Wr OV6211_TVTS_HI 0x03, Wr OV6211_TVTS_LO 0x6c]"
    using set_stream_pending_writes [of sensor "0x03" "0x6c" b on] by simp
  have sw: "pending_fi_change sensor \<and> cur_fr_id sensor = OV6211_NUM_FRAMERATES \<longrightarrow>
        internal_set_stream sensor on b = (- EINVAL, sensor, b)"
    by (simp add: internal_set_stream_def)
  have ok: "numerator fi \<noteq> 0 \<and> denominator fi div numerator fi \<in> {10, 15, 30, 45, 60} \<longrightarrow>
        fst (internal_set_frame_interval sensor fi) = 0
        \<and> frame_interval (snd (internal_set_frame_interval sensor fi)) = fi
        \<and> cur_fr_id (snd (internal_set_frame_interval sensor fi)) =
            (if denominator fi div numerator fi = 10 then OV6211_10_FPS
             else if denominator fi div numerator fi = 15 then OV6211_15_FPS
             else if denominator fi div numerator fi = 30 then OV6211_30_FPS
             else if denominator fi div numerator fi = 45 then OV6211_45_FPS
             else OV6211_60_FPS)
        \<and> take 2 (issued b (snd (snd (internal_set_stream
              (snd (ov6211_s_frame_interval sensor fi)) on b)))) =
            (if denominator fi div numerator fi = 10
               then [Wr OV6211_TVTS_HI 0x14, Wr OV6211_TVTS_LO 0x88]
             else if denominator fi div numerator fi = 15
               then [Wr OV6211_TVTS_HI 0x0d, Wr OV6211_TVTS_LO 0xb0]
             else if denominator fi div numerator fi = 30
               then [Wr OV6211_TVTS_HI 0x06, Wr OV6211_TVTS_LO 0xd8]
             else if denominator fi div numerator fi = 45
               then [Wr OV6211_TVTS_HI 0x04, Wr OV6211_TVTS_LO 0x90]
             else [Wr OV6211_TVTS_HI 0x03, Wr OV6211_TVTS_LO 0x6c])"
  proof
    assume a: "numerator fi \<noteq> 0 \<and> denominator fi div numerator fi \<in> {10, 15, 30, 45, 60}"
    then have n: "numerator fi \<noteq> 0"
      and q: "denominator fi div numerator fi \<in> {10, 15, 30, 45, 60}"
      by simp_all
    define s where "s = snd (ov6211_s_frame_interval sensor fi)"
    note acc = s_frame_interval_accepts [OF n q, of sensor]
    have p: "pending_fi_change s"
      unfolding s_def by (rule acc(4))
    have id: "cur_fr_id s =
            (if denominator fi div numerator fi = 10 then OV6211_10_FPS
             else if denominator fi div numerator fi = 15 then OV6211_15_FPS
             else if denominator fi div numerator fi = 30 then OV6211_30_FPS
             else if denominator fi div numerator fi = 45 then OV6211_45_FPS
             else OV6211_60_FPS)"
      unfolding s_def by (simp only: acc(5) acc(3))
    have t: "fr_id_timing (cur_fr_id s) =
            (if denominator fi div numerator fi = 10 then Some (0x14, 0x88)
             else if denominator fi div numerator fi = 15 then Some (0x0d, 0xb0)
             else if denominator fi div numerator fi = 30 then Some (0x06, 0xd8)
             else if denominator fi div numerator fi = 45 then Some (0x04, 0x90)
             else Some (0x03, 0x6c))"
      by (simp add: id)
    have w: "take 2 (issued b (snd (snd (internal_set_stream s on b)))) =
            (if denominator fi div numerator fi = 10
               then [Wr OV6211_TVTS_HI 0x14, Wr OV6211_TVTS_LO 0x88]
             else if denominator fi div numerator fi = 15
               then [Wr OV6211_TVTS_HI 0x0d, Wr OV6211_TVTS_LO 0xb0]
             else if denominator fi div numerator fi = 30
               then [Wr OV6211_TVTS_HI 0x06, Wr OV6211_TVTS_LO 0xd8]
             else if denominator fi div numerator fi = 45
               then [Wr OV6211_TVTS_HI 0x04, Wr OV6211_TVTS_LO 0x90]
             else [Wr OV6211_TVTS_HI 0x03, Wr OV6211_TVTS_LO 0x6c])"
      using t set_stream_pending_writes [OF p, of _ _ b on]
      by (simp split: if_splits)
    from acc(1) acc(2) acc(3) w [unfolded s_def]
    show "fst (internal_set_frame_interval sensor fi) = 0
        \<and> frame_interval (snd (internal_set_frame_interval sensor fi)) = fi
        \<and> cur_fr_id (snd (internal_set_frame_interval sensor fi)) =
            (if denominator fi div numerator fi = 10 then OV6211_10_FPS
             else if denominator fi div numerator fi = 15 then OV6211_15_FPS
             else if denominator fi div numerator fi = 30 then OV6211_30_FPS
             else if denominator fi div numerator fi = 45 then OV6211_45_FPS
             else OV6211_60_FPS)
        \<and> take 2 (issued b (snd (snd (internal_set_stream
              (snd (ov6211_s_frame_interval sensor fi)) on b)))) =
            (if denominator fi div numerator fi = 10
               then [Wr OV6211_TVTS_HI 0x14, Wr OV6211_TVTS_LO 0x88]
             else if denominator fi div numerator fi = 15
               then [Wr OV6211_TVTS_HI 0x0d, Wr OV6211_TVTS_LO 0xb0]
             else if denominator fi div numerator fi = 30
               then [Wr OV6211_TVTS_HI 0x06, Wr OV6211_TVTS_LO 0xd8]
             else if denominator fi div numerator fi = 45
               then [Wr OV6211_TVTS_HI 0x04, Wr OV6211_TVTS_LO 0x90]
             else [Wr OV6211_TVTS_HI 0x03, Wr OV6211_TVTS_LO 0x6c])"
      by (intro conjI)
  qed
  have bad: "numerator fi = 0 \<or> denominator fi div numerator fi \<notin> {10, 15, 30, 45, 60} \<longrightarrow>
        internal_set_frame_interval sensor fi = (- EINVAL, sensor)"
    using set_frame_interval_rejects [of fi sensor] by blast
  have zero: "denominator fi = 0 \<longrightarrow> internal_set_frame_interval sensor fi = (- EINVAL, sensor)"
  proof
    assume "denominator fi = 0"
    then have "numerator fi = 0 \<or> denominator fi div numerator fi \<notin> {10, 15, 30, 45, 60}"
      by simp
    then show "internal_set_frame_interval sensor fi = (- EINVAL, sensor)"
      by (rule set_frame_interval_rejects)
  qed
  from w10 w15 w30 w45 w60 sw ok bad zero show ?thesis
    by (intro conjI)
qed

text \<open>
  The interval 1/30 selects the 30 frames a second id, and the next
  \<open>internal_set_stream\<close> starts with the writes of \<open>0x06\<close> and \<open>0xD8\<close>; the
  intervals 1/7 and 1/0 are rejected with \<open>-22\<close>.
\<close>

theorem frame_rate_mapping_witness:
  "fst (internal_set_frame_interval ov6211_probe_state \<lparr>numerator = 1, denominator = 30\<rparr>) = 0
   \<and> cur_fr_id (snd (internal_set_frame_interval ov6211_probe_state
        \<lparr>numerator = 1, denominator = 30\<rparr>)) = OV6211_30_FPS
   \<and> take 2 (issued (quiet_bus (\<lambda>a. 0)) (snd (snd (internal_set_stream
        (snd (ov6211_s_frame_interval ov6211_probe_state \<lparr>numerator = 1, denominator = 30\<rparr>))
        True (quiet_bus (\<lambda>a. 0)))))) = [Wr OV6211_TVTS_HI 0x06, Wr OV6211_TVTS_LO 0xd8]
   \<and> internal_set_frame_interval ov6211_probe_state \<lparr>numerator = 1, denominator = 7\<rparr>
       = (- 22, ov6211_probe_state)
   \<and> internal_set_frame_interval ov6211_probe_state \<lparr>numerator = 1, denominator = 0\<rparr>
       = (- 22, ov6211_probe_state)"
proof -
  note m30 = frame_rate_mapping [of ov6211_probe_state "quiet_bus (\<lambda>a. 0)" True
      "\<lparr>numerator = 1, denominator = 30\<rparr>"]
  note m7 = frame_rate_mapping [of ov6211_probe_state "quiet_bus (\<lambda>a. 0)" True
      "\<lparr>numerator = 1, denominator = 7\<rparr>"]
  note m0 = frame_rate_mapping [of ov6211_probe_state "quiet_bus (\<lambda>a. 0)" True
      "\<lparr>numerator = 1, denominator = 0\<rparr>"]
  have a: "fst (internal_set_frame_interval ov6211_probe_state
        \<lparr>numerator = 1, denominator = 30\<rparr>) = 0
      \<and> cur_fr_id (snd (internal_set_frame_interval ov6211_probe_state
        \<lparr>numerator = 1, denominator = 30\<rparr>)) = OV6211_30_FPS
      \<and> take 2 (issued (quiet_bus (\<lambda>a. 0)) (snd (snd (internal_set_stream
        (snd (ov6211_s_frame_interval ov6211_probe_state \<lparr>numerator = 1, denominator = 30\<rparr>))
        True (quiet_bus (\<lambda>a. 0)))))) = [Wr OV6211_TVTS_HI 0x06, Wr OV6211_TVTS_LO 0xd8]"
    using m30 by simp
  have c: "internal_set_frame_interval ov6211_probe_state \<lparr>numerator = 1, denominator = 7\<rparr>
       = (- 22, ov6211_probe_state)"
    using m7 by simp
  have d: "internal_set_frame_interval ov6211_probe_state \<lparr>numerator = 1, denominator = 0\<rparr>
       = (- 22, ov6211_probe_state)"
    using m0 by simp
  from a c d show ?thesis by simp
qed

text \<open>
  C9 as stated fails: the interval 2/61 is none of the five enumerated rates, yet its
  truncated quotient is 30, and it is accepted with the 30 frames a second id.
\<close>

theorem frame_rate_mapping_counterexample:
  "internal_set_frame_interval ov6211_probe_state \<lparr>numerator = 2, denominator = 61\<rparr>
     = (0, ov6211_probe_state\<lparr>cur_fr_id := OV6211_30_FPS,
            frame_interval := \<lparr>numerator = 2, denominator = 61\<rparr>\<rparr>)
   \<and> fst (ov6211_s_frame_interval ov6211_probe_state \<lparr>numerator = 2, denominator = 61\<rparr>) = 0"
  by (simp add: ov6211_s_frame_interval_def internal_set_frame_interval_def Let_def
      framerate_index_table ov6211_framerates_def)

section \<open>The chip identity gate\<close>

lemma ucast_byte_eq_numeral:
  "((ucast (x :: u8) :: u32) = 0x67) = (x = 0x67)"
  "((ucast (x :: u8) :: u32) = 0x10) = (x = 0x10)"
proof -
  have u: "unat (ucast x :: u32) = unat x"
    using unsigned_less [of x, where ?'a = nat]
    by (simp add: unsigned_ucast_eq take_bit_eq_mod)
  show "((ucast x :: u32) = 0x67) = (x = 0x67)"
    using u by (simp add: word_unat_eq_iff)
  show "((ucast x :: u32) = 0x10) = (x = 0x10)"
    using u by (simp add: word_unat_eq_iff)
qed

lemma check_chip_id_quiet:
  assumes "replies b = []"
  shows "fst (ov6211_check_chip_id b) =
     (if regs b OV6211_SC_CHIP_ID_HIGH \<noteq> 0x67 then ENXIO
      else if regs b OV6211_SC_CHIP_ID_LOW \<noteq> 0x10 then - ENXIO else 0)"
  using assms
  by (simp add: ov6211_check_chip_id_def regmap_read_def next_reply_def emit_def
      ucast_byte_eq_numeral)

lemma check_chip_id_general:
  "(fst (ov6211_check_chip_id b) = 0) =
     ((\<forall>r\<in>set (take 3 (replies b)). fst r = 0)
      \<and> regs b OV6211_SC_CHIP_ID_HIGH = 0x67 \<and> regs b OV6211_SC_CHIP_ID_LOW = 0x10)"
proof (cases "replies b")
  case Nil
  then show ?thesis
    by (simp add: check_chip_id_quiet)
next
  case (Cons r1 rs1)
  note c1 = Cons
  show ?thesis
  proof (cases rs1)
    case Nil
    then show ?thesis
      using c1
      by (cases r1)
        (simp add: ov6211_check_chip_id_def regmap_read_def next_reply_def emit_def
          ucast_byte_eq_numeral)
  next
    case (Cons r2 rs2)
    note c2 = Cons
    show ?thesis
    proof (cases rs2)
      case Nil
      then show ?thesis
        using c1 c2
        by (cases r1; cases r2)
          (simp add: ov6211_check_chip_id_def regmap_read_def next_reply_def emit_def
            ucast_byte_eq_numeral)
    next
      case (Cons r3 rs3)
      then show ?thesis
        using c1 c2
        by (cases r1; cases r2; cases r3)
          (simp add: ov6211_check_chip_id_def regmap_read_def next_reply_def emit_def
            ucast_byte_eq_numeral)
    qed
  qed
qed

lemma regmap_read_no_write:
  "\<exists>es. xfers (snd (regmap_read reg b)) = xfers b @ es \<and> write_addrs es = []"
proof (cases "OV6211_LAST_REG < reg")
  case True
  then have "xfers (snd (regmap_read reg b)) = xfers b @ [] \<and> write_addrs [] = []"
    by (simp add: regmap_read_def next_reply_def split: list.split prod.split)
  then show ?thesis by (rule exI)
next
  case False
  then have "xfers (snd (regmap_read reg b)) = xfers b @ [Rd reg] \<and> write_addrs [Rd reg] = []"
    by (simp add: regmap_read_def next_reply_def emit_def split: list.split prod.split)
  then show ?thesis by (rule exI)
qed

lemma check_chip_id_no_write:
  "\<exists>es. xfers (snd (ov6211_check_chip_id b)) = xfers b @ es \<and> write_addrs es = []"
proof -
  define b1 where "b1 = snd (regmap_read OV6211_SC_CHIP_ID_HIGH b)"
  define b2 where "b2 = snd (regmap_read OV6211_SC_CHIP_ID_LOW b1)"
  define b3 where "b3 = snd (regmap_read OV6211_SC_REG0C b2)"
  obtain e1 where e1: "xfers b1 = xfers b @ e1" "write_addrs e1 = []"
    using regmap_read_no_write [of OV6211_SC_CHIP_ID_HIGH b] by (auto simp add: b1_def)
  obtain e2 where e2: "xfers b2 = xfers b1 @ e2" "write_addrs e2 = []"
    using regmap_read_no_write [of OV6211_SC_CHIP_ID_LOW b1] by (auto simp add: b2_def)
  obtain e3 where e3: "xfers b3 = xfers b2 @ e3" "write_addrs e3 = []"
    using regmap_read_no_write [of OV6211_SC_REG0C b2] by (auto simp add: b3_def)
  have "snd (ov6211_check_chip_id b) = b1 \<or> snd (ov6211_check_chip_id b) = b2
      \<or> snd (ov6211_check_chip_id b) = b3"
    by (simp add: ov6211_check_chip_id_def b1_def b2_def b3_def split: prod.split)
  moreover have "xfers b1 = xfers b @ e1 \<and> write_addrs e1 = []"
    using e1 by simp
  moreover have "xfers b2 = xfers b @ (e1 @ e2) \<and> write_addrs (e1 @ e2) = []"
    using e1 e2 by (simp add: write_addrs_append)
  moreover have "xfers b3 = xfers b @ (e1 @ e2 @ e3) \<and> write_addrs (e1 @ e2 @ e3) = []"
    using e1 e2 e3 by (simp add: write_addrs_append)
  ultimately show ?thesis by metis
qed

lemma probe_fails_with_chip_id:
  assumes "fst (ov6211_check_chip_id b) \<noteq> 0"
  shows "fst (ov6211_probe env b) \<noteq> 0 \<and> fst (snd (ov6211_probe env b)) = None
    \<and> (snd (snd (ov6211_probe env b)) = b
       \<or> snd (snd (ov6211_probe env b)) = snd (ov6211_check_chip_id b))"
  using assms by (auto simp add: ov6211_probe_def split: prod.split)

text \<open>
  C10. On a bus that acknowledges every transfer, \<open>ov6211_check_chip_id\<close> returns 0
  exactly when the register at the chip-id-high address holds \<open>0x67\<close> and the one at
  the chip-id-low address holds \<open>0x10\<close>; what the revision register holds makes no
  difference. A wrong high byte gives \<^verbatim>\<open>ENXIO\<close>, a wrong low byte \<^verbatim>\<open>-ENXIO\<close>.
  On any bus the check returns 0 exactly when, besides, its three reads are acknowledged.
  On any bus, when the check returns non-zero, \<open>ov6211_probe\<close> returns non-zero, keeps no
  device state, and has issued no register write: no script was applied.
\<close>

theorem chip_id_gate:
  "(replies b = [] \<longrightarrow>
      (fst (ov6211_check_chip_id b) = 0) =
        (regs b OV6211_SC_CHIP_ID_HIGH = 0x67 \<and> regs b OV6211_SC_CHIP_ID_LOW = 0x10))
   \<and> (replies b = [] \<longrightarrow>
        fst (ov6211_check_chip_id (b\<lparr>regs := (regs b)(OV6211_SC_REG0C := x)\<rparr>)) =
          fst (ov6211_check_chip_id b))
   \<and> (replies b = [] \<and> regs b OV6211_SC_CHIP_ID_HIGH \<noteq> 0x67 \<longrightarrow>
        fst (ov6211_check_chip_id b) = ENXIO)
   \<and> (replies b = [] \<and> regs b OV6211_SC_CHIP_ID_HIGH = 0x67
        \<and> regs b OV6211_SC_CHIP_ID_LOW \<noteq> 0x10 \<longrightarrow>
        fst (ov6211_check_chip_id b) = - ENXIO)
   \<and> (fst (ov6211_check_chip_id b) = 0) =
        ((\<forall>r\<in>set (take 3 (replies b)). fst r = 0)
         \<and> regs b OV6211_SC_CHIP_ID_HIGH = 0x67 \<and> regs b OV6211_SC_CHIP_ID_LOW = 0x10)
   \<and> (fst (ov6211_check_chip_id b) \<noteq> 0 \<longrightarrow>
        fst (ov6211_probe env b) \<noteq> 0 \<and> fst (snd (ov6211_probe env b)) = None
        \<and> write_addrs (issued b (snd (snd (ov6211_probe env b)))) = [])"
proof -
  have gate: "write_addrs (issued b (snd (snd (ov6211_probe env b)))) = []"
    if nz: "fst (ov6211_check_chip_id b) \<noteq> 0"
  proof -
    obtain es where es: "xfers (snd (ov6211_check_chip_id b)) = xfers b @ es"
      and w: "write_addrs es = []"
      using check_chip_id_no_write [of b] by blast
    have "issued b (snd (ov6211_check_chip_id b)) = es"
      using es by (rule issued_append)
    moreover have "issued b b = []"
      by (simp add: issued_def)
    ultimately show ?thesis
      using probe_fails_with_chip_id [OF nz, of env] w by auto
  qed
  have q1: "replies b = [] \<longrightarrow>
      (fst (ov6211_check_chip_id b) = 0) =
        (regs b OV6211_SC_CHIP_ID_HIGH = 0x67 \<and> regs b OV6211_SC_CHIP_ID_LOW = 0x10)"
    by (simp add: check_chip_id_quiet)
  have q2: "replies b = [] \<longrightarrow>
        fst (ov6211_check_chip_id (b\<lparr>regs := (regs b)(OV6211_SC_REG0C := x)\<rparr>)) =
          fst (ov6211_check_chip_id b)"
    by (simp add: check_chip_id_quiet)
  have q3: "replies b = [] \<and> regs b OV6211_SC_CHIP_ID_HIGH \<noteq> 0x67 \<longrightarrow>
        fst (ov6211_check_chip_id b) = ENXIO"
    by (simp add: check_chip_id_quiet)
  have q4: "replies b = [] \<and> regs b OV6211_SC_CHIP_ID_HIGH = 0x67
        \<and> regs b OV6211_SC_CHIP_ID_LOW \<noteq> 0x10 \<longrightarrow>
        fst (ov6211_check_chip_id b) = - ENXIO"
    by (simp add: check_chip_id_quiet)
  have fatal: "fst (ov6211_check_chip_id b) \<noteq> 0 \<longrightarrow>
        fst (ov6211_probe env b) \<noteq> 0 \<and> fst (snd (ov6211_probe env b)) = None
        \<and> write_addrs (issued b (snd (snd (ov6211_probe env b)))) = []"
    using gate probe_fails_with_chip_id [of b env] by blast
  note gen = check_chip_id_general [of b]
  from q1 q2 q3 q4 gen fatal show ?thesis
    by (intro conjI)
qed

text \<open>
  A device answering \<open>0x67\<close>, \<open>0x10\<close> passes the check whatever its revision; one
  answering \<open>0x67\<close>, \<open>0x11\<close> fails it with \<open>-6\<close>, the probe fails with it, and only the
  two reads were on the bus.
\<close>

theorem chip_id_gate_witness:
  "fst (ov6211_check_chip_id (quiet_bus ((\<lambda>a. 0)(0x300a := 0x67, 0x300b := 0x10, 0x300c := 0xb0)))) = 0
   \<and> fst (ov6211_check_chip_id (quiet_bus ((\<lambda>a. 0)(0x300a := 0x67, 0x300b := 0x11)))) = - 6
   \<and> fst (ov6211_probe
        \<lparr>kzalloc_ok = True, endpoint_found = True, endpoint_parse_ret = 0, pwdn_gpio_err = 0,
         reset_gpio_err = 0, regmap_err = 0, i2c_client_read_err = 0, regmap_read_err = 0,
         pads_init_ret = 0, regulators_ret = 0, ctrl_handler_error = 0, async_register_ret = 0\<rparr>
        (quiet_bus ((\<lambda>a. 0)(0x300a := 0x67, 0x300b := 0x11)))) \<noteq> 0
   \<and> write_addrs (issued (quiet_bus ((\<lambda>a. 0)(0x300a := 0x67, 0x300b := 0x11)))
        (snd (snd (ov6211_probe
          \<lparr>kzalloc_ok = True, endpoint_found = True, endpoint_parse_ret = 0, pwdn_gpio_err = 0,
           reset_gpio_err = 0, regmap_err = 0, i2c_client_read_err = 0, regmap_read_err = 0,
           pads_init_ret = 0, regulators_ret = 0, ctrl_handler_error = 0,
           async_register_ret = 0\<rparr>
          (quiet_bus ((\<lambda>a. 0)(0x300a := 0x67, 0x300b := 0x11))))))) = []"
proof -
  let ?good = "quiet_bus ((\<lambda>a. 0)(0x300a := 0x67, 0x300b := 0x10, 0x300c := 0xb0))"
  let ?bad = "quiet_bus ((\<lambda>a. 0)(0x300a := 0x67, 0x300b := 0x11))"
  let ?env = "\<lparr>kzalloc_ok = True, endpoint_found = True, endpoint_parse_ret = 0,
      pwdn_gpio_err = 0, reset_gpio_err = 0, regmap_err = 0, i2c_client_read_err = 0,
      regmap_read_err = 0, pads_init_ret = 0, regulators_ret = 0, ctrl_handler_error = 0,
      async_register_ret = 0\<rparr>"
  have g: "fst (ov6211_check_chip_id ?good) = 0"
    using chip_id_gate [of ?good 0 ?env] by (simp add: quiet_bus_def)
  have f: "fst (ov6211_check_chip_id ?bad) = - 6"
    using chip_id_gate [of ?bad 0 ?env] by (simp add: quiet_bus_def)
  then have nz: "fst (ov6211_check_chip_id ?bad) \<noteq> 0"
    by simp
  have p: "fst (ov6211_probe ?env ?bad) \<noteq> 0
      \<and> write_addrs (issued ?bad (snd (snd (ov6211_probe ?env ?bad)))) = []"
    using chip_id_gate [of ?bad 0 ?env] nz by blast
  from g f p show ?thesis by simp
qed

end
